theory Spec2Isabelle
  imports Complex_Main "HOL-Library.AList"
begin

section \<open>Quote ingestion, caching and fan-out: a model of the backend services\<close>

text \<open>
  The theory embeds three classes of the backend: \<open>CacheService\<close> (CacheService.ts),
  \<open>MarketDataService\<close> and \<open>WebSocketService\<close>. Conventions of the embedding:
  \<^item> a JavaScript \<open>Map\<close> is an association list in insertion order, read with
    \<open>map_of\<close>, written with \<open>AList.update\<close> (replace in place, or append a new key)
    and \<open>AList.delete\<close>;
  \<^item> a JavaScript \<open>Set\<close> of strings is a list in insertion order (\<open>set_add\<close>,
    \<open>set_delete\<close>);
  \<^item> \<open>Date.now()\<close> and every \<open>Date\<close> are integers (milliseconds since the epoch) and
    are passed in as the parameter \<open>now\<close> of the function that reads the clock;
  \<^item> JavaScript numbers that carry prices are \<open>real\<close>; each call site of
    \<open>Math.random()\<close> is a field of the record \<open>draws\<close>;
  \<^item> the cache is modelled in its in-memory configuration (no \<open>REDIS_URL\<close>, so
    \<open>this.redis\<close> is undefined and every method takes its \<open>else\<close> branch);
  \<^item> a serialized value (\<open>JSON.stringify\<close>) is represented by the value it encodes.
\<close>

subsection \<open>Strings and sets\<close>

type_synonym symbol = string

text \<open>\<open>String.prototype.includes\<close>: does \<open>sub\<close> occur in \<open>s\<close> as a contiguous run.\<close>

fun str_includes :: "string \<Rightarrow> string \<Rightarrow> bool" where
  "str_includes [] sub = (sub = [])"
| "str_includes (c # cs) sub = (take (length sub) (c # cs) = sub \<or> str_includes cs sub)"

definition set_add :: "string \<Rightarrow> string list \<Rightarrow> string list" where
  "set_add x xs = (if x \<in> set xs then xs else xs @ [x])"

definition set_delete :: "string \<Rightarrow> string list \<Rightarrow> string list" where
  "set_delete x xs = removeAll x xs"

subsection \<open>Quotes and cache entries\<close>

record MarketData =
  symbol :: symbol
  price :: real
  change :: real
  changePercent :: real
  volume :: real
  high :: real
  low :: real
  open_price :: real
  previousClose :: real
  timestamp :: int

text \<open>
  The two shapes of object this code stores in the cache: a quote (under
  \<open>market:<symbol>\<close>) and the generator's \<open>{ price, timestamp }\<close> (under
  \<open>simulated_<symbol>\<close>). \<open>JSON.parse\<close> returns \<open>any\<close>, so a reader receives
  whichever shape sits under the key; \<open>symbol_of\<close> is \<open>data.symbol\<close> inside a
  template literal, which reads \<open>undefined\<close> on an object without that field.
\<close>

datatype cache_value =
  MarketDataValue MarketData
| SimulatedValue real int

fun symbol_of :: "cache_value \<Rightarrow> string" where
  "symbol_of (MarketDataValue d) = symbol d"
| "symbol_of (SimulatedValue p t) = ''undefined''"

fun price_of :: "cache_value \<Rightarrow> real" where
  "price_of (MarketDataValue d) = price d"
| "price_of (SimulatedValue p t) = p"

record cache_entry =
  "value" :: cache_value
  expiry :: int

type_synonym memory_cache = "(string \<times> cache_entry) list"

subsection \<open>CacheService (in-memory branch)\<close>

definition market_key :: "symbol \<Rightarrow> string" where
  "market_key s = ''market:'' @ s"

definition simulated_key :: "symbol \<Rightarrow> string" where
  "simulated_key s = ''simulated_'' @ s"

text \<open>\<open>setMarketData\<close>: unconditional \<open>memoryCache.set\<close> with a 60 s expiry.\<close>

definition setMarketData :: "symbol \<Rightarrow> cache_value \<Rightarrow> int \<Rightarrow> memory_cache \<Rightarrow> memory_cache" where
  "setMarketData s data now mc =
     AList.update (market_key s) \<lparr>value = data, expiry = now + 60000\<rparr> mc"

text \<open>
  \<open>getMarketData\<close>: a live entry is parsed and returned; an expired one is deleted and
  \<open>null\<close> (here \<open>None\<close>) is returned.
\<close>

definition getMarketData :: "symbol \<Rightarrow> int \<Rightarrow> memory_cache \<Rightarrow> cache_value option \<times> memory_cache" where
  "getMarketData s now mc =
     (case map_of mc (market_key s) of
        Some cached \<Rightarrow>
          if expiry cached > now then (Some (value cached), mc)
          else (None, AList.delete (market_key s) mc)
      | None \<Rightarrow> (None, mc))"

text \<open>The generic \<open>set\<close> (default \<open>ttlSeconds = 300\<close>), \<open>get\<close> and \<open>del\<close>.\<close>

definition cache_set :: "string \<Rightarrow> cache_value \<Rightarrow> int \<Rightarrow> int \<Rightarrow> memory_cache \<Rightarrow> memory_cache" where
  "cache_set key v ttlSeconds now mc =
     AList.update key \<lparr>value = v, expiry = now + ttlSeconds * 1000\<rparr> mc"

definition cache_get :: "string \<Rightarrow> int \<Rightarrow> memory_cache \<Rightarrow> cache_value option \<times> memory_cache" where
  "cache_get key now mc =
     (case map_of mc key of
        Some cached \<Rightarrow>
          if expiry cached > now then (Some (value cached), mc)
          else (None, AList.delete key mc)
      | None \<Rightarrow> (None, mc))"

definition cache_del :: "string \<Rightarrow> memory_cache \<Rightarrow> memory_cache" where
  "cache_del key mc = AList.delete key mc"

subsection \<open>MarketDataService: state\<close>

text \<open>
  The fields of the class that the modelled methods read or write, the in-memory map of
  its \<open>CacheService\<close>, and two effect logs: \<open>httpRequests\<close> counts the \<open>axios.get\<close>
  calls issued to the data API, \<open>priceUpdates\<close> lists the quotes handed to the
  registered price-update callbacks. \<open>requestQueue\<close> is declared by the class and
  never written by it.
\<close>

record MarketDataService =
  memoryCache :: memory_cache
  mdSubscribedSymbols :: "string list"
  requestQueue :: "string list"
  lastRequestTime :: int
  requestCount :: nat
  httpRequests :: nat
  priceUpdates :: "cache_value list"

definition rateLimitWindow :: int where
  "rateLimitWindow = 60000"

definition maxRequestsPerWindow :: nat where
  "maxRequestsPerWindow = 300"

definition forexPairs :: "symbol list" where
  "forexPairs =
     [''EUR/USD'', ''GBP/USD'', ''USD/JPY'', ''USD/CHF'',
      ''AUD/USD'', ''USD/CAD'', ''NZD/USD'',
      ''EUR/GBP'', ''EUR/JPY'', ''GBP/JPY'']"

definition isForexSymbol :: "symbol \<Rightarrow> bool" where
  "isForexSymbol s = (s \<in> set forexPairs)"

subsection \<open>MarketDataService.generateSimulatedData\<close>

text \<open>One field per call site of \<open>Math.random()\<close>, each a number in \<open>[0, 1)\<close>.\<close>

record draws =
  r_base :: real
  r_change :: real
  r_volume :: real
  r_high :: real
  r_low :: real

text \<open>
  What the local variable \<open>cached\<close> of \<open>generateSimulatedData\<close> can hold: \<open>null\<close>, a
  parsed object, or a \<open>Promise\<close>. \<open>CacheService.get\<close> is declared \<open>async\<close> and is
  called there without \<open>await\<close> from a function that is not \<open>async\<close>, so the caller
  holds the promise, not the value it resolves to.
\<close>

datatype js_ref =
  JSNull
| JSObject cache_value
| JSPromise "cache_value option"

text \<open>The \<open>else\<close> branch of the base-price choice, in the source's order of tests.\<close>

definition defaultBasePrice :: "symbol \<Rightarrow> real \<Rightarrow> real" where
  "defaultBasePrice s r =
     (if str_includes s ''BTC'' then 65000 + r * 10000
      else if str_includes s ''ETH'' then 2500 + r * 1000
      else if str_includes s ''/USD'' then r * 100 + 10
      else if isForexSymbol s then
        (if s = ''EUR/USD'' then 1.05 + r * 0.1
         else if s = ''GBP/USD'' then 1.25 + r * 0.1
         else if s = ''USD/JPY'' then 140 + r * 20
         else 1.0 + r * 0.5)
      else if str_includes s ''SPY'' then 520 + r * 20
      else if str_includes s ''QQQ'' then 380 + r * 20
      else 50 + r * 200)"

text \<open>
  \<open>cached && typeof cached === 'object' && 'price' in cached\<close>: \<open>null\<close> is falsy; a
  parsed cache object has the property \<open>price\<close>; a promise is a truthy object without
  it.
\<close>

definition basePrice_of :: "js_ref \<Rightarrow> symbol \<Rightarrow> real \<Rightarrow> real" where
  "basePrice_of cached s r =
     (case cached of
        JSNull \<Rightarrow> defaultBasePrice s r
      | JSObject v \<Rightarrow> price_of v
      | JSPromise p \<Rightarrow> defaultBasePrice s r)"

definition generateSimulatedData ::
  "symbol \<Rightarrow> int \<Rightarrow> draws \<Rightarrow> MarketDataService \<Rightarrow> MarketData \<times> MarketDataService" where
  "generateSimulatedData s now d st =
     (let (resolved, mc1) = cache_get (simulated_key s) now (memoryCache st);
          cached = JSPromise resolved;
          basePrice = basePrice_of cached s (r_base d);
          changePercent' = (r_change d - 0.5) * 4;
          change' = basePrice * (changePercent' / 100);
          currentPrice = basePrice + change';
          mc2 = cache_set (simulated_key s) (SimulatedValue currentPrice now) 300 now mc1
      in (\<lparr>symbol = s, price = currentPrice, change = change',
           changePercent = changePercent',
           volume = of_int (floor (r_volume d * 1000000)) + 100000,
           high = currentPrice * (1 + r_high d * 0.02),
           low = currentPrice * (1 - r_low d * 0.02),
           open_price = basePrice, previousClose = basePrice, timestamp = now\<rparr>,
          st\<lparr>memoryCache := mc2\<rparr>))"

subsection \<open>MarketDataService.fetchAlpacaData\<close>

text \<open>
  The upstream provider is a parameter. \<open>Throws m\<close>: the request, or the handling of its
  response, throws an error with message \<open>m\<close>. For a crypto symbol \<open>Returns None\<close> is a
  response without \<open>trades[symbol]\<close>, and \<open>Returns (Some q)\<close> a response from which
  the \<open>try\<close> block builds the quote \<open>q\<close> (with the comparison price of
  \<open>getMinuteComparisonPrice\<close>, a second request that catches its own errors); the
  arithmetic that builds \<open>q\<close> from the response is not modelled.
\<close>

datatype 'a outcome = Throws string | Returns 'a

record upstream =
  crypto_trades :: "MarketData option outcome"
  stock_snapshot :: "MarketData outcome"

definition count_requests :: "nat \<Rightarrow> MarketDataService \<Rightarrow> MarketDataService" where
  "count_requests n st = st\<lparr>httpRequests := httpRequests st + n\<rparr>"

text \<open>The body of the \<open>try\<close> block: \<open>Inl m\<close> is an exception reaching the \<open>catch\<close>.\<close>

definition try_fetch ::
  "symbol \<Rightarrow> int \<Rightarrow> draws \<Rightarrow> upstream \<Rightarrow> MarketDataService
     \<Rightarrow> (string + MarketData option) \<times> MarketDataService" where
  "try_fetch s now d up st =
     (if str_includes s ''/'' then
        (case crypto_trades up of
           Throws m \<Rightarrow> (Inl m, count_requests 1 st)
         | Returns None \<Rightarrow>
             (let (q, st') = generateSimulatedData s now d (count_requests 1 st)
              in (Inr (Some q), st'))
         | Returns (Some q) \<Rightarrow> (Inr (Some q), count_requests 2 st))
      else
        (case stock_snapshot up of
           Throws m \<Rightarrow> (Inl m, count_requests 1 st)
         | Returns q \<Rightarrow> (Inr (Some q), count_requests 2 st)))"

text \<open>The rate-limit check at the head of \<open>fetchAlpacaData\<close>: reset the counter if the
  window has passed.\<close>

definition reset_window :: "int \<Rightarrow> MarketDataService \<Rightarrow> MarketDataService" where
  "reset_window now st =
     (if now - lastRequestTime st > rateLimitWindow
      then st\<lparr>requestCount := 0, lastRequestTime := now\<rparr>
      else st)"

text \<open>
  \<open>fetchAlpacaData\<close>. \<open>None\<close> is the \<open>null\<close> of the rate-limit branch. The \<open>catch\<close>
  handles every exception and does not rethrow, so the result has no error alternative.
\<close>

definition fetchAlpacaData ::
  "symbol \<Rightarrow> int \<Rightarrow> draws \<Rightarrow> upstream \<Rightarrow> MarketDataService
     \<Rightarrow> MarketData option \<times> MarketDataService" where
  "fetchAlpacaData s now d up st =
     (if isForexSymbol s then
        (let (q, st') = generateSimulatedData s now d st in (Some q, st'))
      else
        (let st1 = reset_window now st in
         if requestCount st1 \<ge> maxRequestsPerWindow then (None, st1)
         else
           (let st2 = st1\<lparr>requestCount := requestCount st1 + 1\<rparr> in
            case try_fetch s now d up st2 of
              (Inr r, st3) \<Rightarrow> (r, st3)
            | (Inl errorMessage, st3) \<Rightarrow>
                if str_includes errorMessage ''404'' \<or> str_includes errorMessage ''not found''
                   \<or> str_includes errorMessage ''forbidden''
                then (let (q, st4) = generateSimulatedData s now d st3 in (Some q, st4))
                else (let (q, st4) = generateSimulatedData s now d st3 in (Some q, st4)))))"

text \<open>
  A run of calls to \<open>fetchAlpacaData\<close>, and the times of those calls that issued an
  upstream request.
\<close>

record fetch_call =
  call_symbol :: symbol
  call_time :: int
  call_draws :: draws
  call_upstream :: upstream

definition fetch :: "fetch_call \<Rightarrow> MarketDataService \<Rightarrow> MarketData option \<times> MarketDataService" where
  "fetch c st = fetchAlpacaData (call_symbol c) (call_time c) (call_draws c) (call_upstream c) st"

fun issued_times :: "fetch_call list \<Rightarrow> MarketDataService \<Rightarrow> int list" where
  "issued_times [] st = []"
| "issued_times (c # cs) st =
     (let st' = snd (fetch c st) in
      if httpRequests st' > httpRequests st then call_time c # issued_times cs st'
      else issued_times cs st')"

fun run_fetches :: "fetch_call list \<Rightarrow> MarketDataService \<Rightarrow> MarketDataService" where
  "run_fetches [] st = st"
| "run_fetches (c # cs) st = run_fetches cs (snd (fetch c st))"

text \<open>
  The number of upstream fetches, given by their times, that fall in the rolling window
  of length \<open>rateLimitWindow\<close> ending at \<open>t\<close>.
\<close>

definition calls_in_window :: "int \<Rightarrow> int list \<Rightarrow> nat" where
  "calls_in_window t ts = length (filter (\<lambda>u. t - rateLimitWindow < u \<and> u \<le> t) ts)"

text \<open>
  The state in which the \<open>catch\<close> block of \<open>fetchAlpacaData\<close> runs when the first
  request of an admitted fetch throws: window reset if due, counter incremented, one
  request issued.
\<close>

definition admitted_state :: "int \<Rightarrow> MarketDataService \<Rightarrow> MarketDataService" where
  "admitted_state now st =
     count_requests 1
       ((reset_window now st)\<lparr>requestCount := requestCount (reset_window now st) + 1\<rparr>)"

subsection \<open>MarketDataService: processMarketData and the periodic tasks\<close>

definition processMarketData :: "cache_value \<Rightarrow> int \<Rightarrow> MarketDataService \<Rightarrow> MarketDataService" where
  "processMarketData data now st =
     st\<lparr>memoryCache := setMarketData (symbol_of data) data now (memoryCache st),
        priceUpdates := priceUpdates st @ [data]\<rparr>"

text \<open>
  The quote that \<open>handleAlpacaStockMessage\<close> and \<open>handleAlpacaCryptoMessage\<close> build
  from a trade message of the stream (symbol \<open>S\<close>, price \<open>p\<close>, size \<open>s\<close>, time \<open>t\<close>)
  and pass to \<open>processMarketData\<close>.
\<close>

definition trade_quote :: "symbol \<Rightarrow> real \<Rightarrow> real \<Rightarrow> int \<Rightarrow> MarketData" where
  "trade_quote S p s t =
     \<lparr>symbol = S, price = p, change = 0, changePercent = 0, volume = s,
      high = 0, low = 0, open_price = 0, previousClose = 0, timestamp = t\<rparr>"

text \<open>The symbol tables of \<open>startPeriodicDataFetch\<close>.\<close>

definition allSymbols :: "symbol list" where
  "allSymbols =
     [''AAPL'', ''GOOGL'', ''MSFT'', ''META'', ''NVDA'', ''AMD'',
      ''TSLA'', ''AMZN'', ''NFLX'', ''DIS'', ''PYPL'', ''ADBE'',
      ''CRM'', ''ORCL'', ''INTC'', ''IBM'',
      ''JPM'', ''BAC'', ''GS'', ''MS'', ''WFC'', ''V'', ''MA'',
      ''SPY'', ''QQQ'', ''IWM'',
      ''VTI'', ''VOO'', ''VEA'', ''VWO'',
      ''BTC/USD'', ''ETH/USD'',
      ''LTC/USD'', ''BCH/USD'', ''LINK/USD'', ''UNI/USD'',
      ''AAVE/USD'', ''ALGO/USD'', ''DOT/USD'', ''DOGE/USD'',
      ''EUR/USD'', ''GBP/USD'', ''USD/JPY'', ''USD/CHF'',
      ''AUD/USD'', ''USD/CAD'', ''NZD/USD'',
      ''EUR/GBP'', ''EUR/JPY'', ''GBP/JPY'']"

definition highPrioritySymbols :: "symbol list" where
  "highPrioritySymbols =
     [''SPY'', ''QQQ'', ''BTC/USD'', ''ETH/USD'', ''AAPL'', ''GOOGL'', ''MSFT'', ''TSLA'', ''NVDA'']"

definition mediumPrioritySymbols :: "symbol list" where
  "mediumPrioritySymbols =
     [''META'', ''AMZN'', ''NFLX'', ''AMD'', ''JPM'', ''V'', ''LTC/USD'', ''BCH/USD'']"

definition lowPrioritySymbols :: "symbol list" where
  "lowPrioritySymbols =
     filter (\<lambda>s. s \<notin> set highPrioritySymbols \<and> s \<notin> set mediumPrioritySymbols) allSymbols"

text \<open>
  The lists handed to \<open>updateSymbolBatch\<close> by the three tier intervals: the symbols the
  scheduler polls.
\<close>

definition pollTargets :: "symbol list" where
  "pollTargets = highPrioritySymbols @ mediumPrioritySymbols @ lowPrioritySymbols"

fun timestamp_of :: "cache_value \<Rightarrow> int" where
  "timestamp_of (MarketDataValue d) = timestamp d"
| "timestamp_of (SimulatedValue p t) = t"

text \<open>
  The first loop of \<open>updateSymbolBatch\<close>: of the tier's symbols, those whose quote is
  absent from the cache or older than the tier's threshold.
\<close>

fun symbolsNeedingUpdate ::
  "symbol list \<Rightarrow> int \<Rightarrow> int \<Rightarrow> memory_cache \<Rightarrow> symbol list \<times> memory_cache" where
  "symbolsNeedingUpdate [] cacheThreshold now mc = ([], mc)"
| "symbolsNeedingUpdate (s # ss) cacheThreshold now mc =
     (let (cached, mc1) = getMarketData s now mc;
          (rest, mc2) = symbolsNeedingUpdate ss cacheThreshold now mc1
      in case cached of
           None \<Rightarrow> (s # rest, mc2)
         | Some v \<Rightarrow>
             if now - timestamp_of v > cacheThreshold then (s # rest, mc2) else (rest, mc2))"

text \<open>
  The 2-second broadcast interval. Its \<open>for\<close> loop reads the cache for every symbol
  and schedules \<open>processMarketData(cached)\<close> with \<open>setImmediate\<close> for each hit
  (\<open>broadcast_read\<close>); the scheduled calls then run in order, at time \<open>now'\<close>.
\<close>

fun broadcast_read :: "symbol list \<Rightarrow> int \<Rightarrow> memory_cache \<Rightarrow> cache_value list \<times> memory_cache" where
  "broadcast_read [] now mc = ([], mc)"
| "broadcast_read (s # ss) now mc =
     (let (cached, mc1) = getMarketData s now mc;
          (rest, mc2) = broadcast_read ss now mc1
      in case cached of
           None \<Rightarrow> (rest, mc2)
         | Some v \<Rightarrow> (v # rest, mc2))"

definition broadcast_over ::
  "symbol list \<Rightarrow> int \<Rightarrow> int \<Rightarrow> MarketDataService \<Rightarrow> MarketDataService" where
  "broadcast_over symbols now now' st =
     (let (scheduled, mc1) = broadcast_read symbols now (memoryCache st)
      in fold (\<lambda>v. processMarketData v now') scheduled (st\<lparr>memoryCache := mc1\<rparr>))"

definition broadcast_tick :: "int \<Rightarrow> int \<Rightarrow> MarketDataService \<Rightarrow> MarketDataService" where
  "broadcast_tick now now' st = broadcast_over allSymbols now now' st"

text \<open>
  The entry under a key when it has not expired at time \<open>now\<close>: what a read of the key
  at that time finds.
\<close>

definition live_entry :: "int \<Rightarrow> memory_cache \<Rightarrow> string \<Rightarrow> cache_entry option" where
  "live_entry now mc k =
     (case map_of mc k of
        None \<Rightarrow> None
      | Some e \<Rightarrow> if expiry e > now then Some e else None)"

text \<open>
  Every quote cached for one of \<open>symbols\<close> sits under the key of its own symbol, as
  every caller of \<open>setMarketData\<close> in \<open>MarketDataService\<close> writes it.
\<close>

definition quotes_keyed_by_symbol :: "symbol list \<Rightarrow> memory_cache \<Rightarrow> bool" where
  "quotes_keyed_by_symbol symbols mc =
     (\<forall>s\<in>set symbols.
        case map_of mc (market_key s) of
          None \<Rightarrow> True
        | Some e \<Rightarrow> symbol_of (value e) = s)"

text \<open>
  \<open>subscribeToSymbol\<close> and \<open>unsubscribeFromSymbol\<close> maintain the set of symbols
  subscribed on the provider's streams (the messages sent on the two sockets are not
  modelled).
\<close>

definition subscribeToSymbol :: "symbol \<Rightarrow> MarketDataService \<Rightarrow> MarketDataService" where
  "subscribeToSymbol s st =
     (if s \<notin> set (mdSubscribedSymbols st)
      then st\<lparr>mdSubscribedSymbols := set_add s (mdSubscribedSymbols st)\<rparr>
      else st)"

definition unsubscribeFromSymbol :: "symbol \<Rightarrow> MarketDataService \<Rightarrow> MarketDataService" where
  "unsubscribeFromSymbol s st =
     (if s \<in> set (mdSubscribedSymbols st)
      then st\<lparr>mdSubscribedSymbols := set_delete s (mdSubscribedSymbols st)\<rparr>
      else st)"

subsection \<open>WebSocketService: the subscription registry\<close>

record SocketClient =
  client_id :: string
  userId :: "string option"
  subscribedSymbols :: "string list"
  rooms :: "string list"

record WebSocketService =
  clients :: "(string \<times> SocketClient) list"
  symbolSubscriptions :: "(string \<times> string list) list"
  marketDataService :: MarketDataService

definition subscribeClientToSymbol :: "string \<Rightarrow> symbol \<Rightarrow> WebSocketService \<Rightarrow> WebSocketService" where
  "subscribeClientToSymbol clientId s ws =
     (case map_of (clients ws) clientId of
        None \<Rightarrow> ws
      | Some client \<Rightarrow>
          (let ws1 = ws\<lparr>clients := AList.update clientId
                        (client\<lparr>subscribedSymbols := set_add s (subscribedSymbols client)\<rparr>)
                        (clients ws)\<rparr>
           in case map_of (symbolSubscriptions ws1) s of
                None \<Rightarrow>
                  ws1\<lparr>symbolSubscriptions :=
                         AList.update s (set_add clientId []) (symbolSubscriptions ws1),
                       marketDataService := subscribeToSymbol s (marketDataService ws1)\<rparr>
              | Some subscribers \<Rightarrow>
                  ws1\<lparr>symbolSubscriptions :=
                         AList.update s (set_add clientId subscribers) (symbolSubscriptions ws1)\<rparr>))"

definition unsubscribeClientFromSymbol :: "string \<Rightarrow> symbol \<Rightarrow> WebSocketService \<Rightarrow> WebSocketService" where
  "unsubscribeClientFromSymbol clientId s ws =
     (case map_of (clients ws) clientId of
        None \<Rightarrow> ws
      | Some client \<Rightarrow>
          (let ws1 = ws\<lparr>clients := AList.update clientId
                        (client\<lparr>subscribedSymbols := set_delete s (subscribedSymbols client)\<rparr>)
                        (clients ws)\<rparr>
           in case map_of (symbolSubscriptions ws1) s of
                None \<Rightarrow> ws1
              | Some subscribers \<Rightarrow>
                  (let subscribers' = set_delete clientId subscribers in
                   if length subscribers' = 0
                   then ws1\<lparr>symbolSubscriptions := AList.delete s (symbolSubscriptions ws1),
                            marketDataService := unsubscribeFromSymbol s (marketDataService ws1)\<rparr>
                   else ws1\<lparr>symbolSubscriptions :=
                              AList.update s subscribers' (symbolSubscriptions ws1)\<rparr>)))"

text \<open>
  \<open>handleClientDisconnection\<close>. \<open>Set.forEach\<close> visits the symbols in insertion order;
  each callback deletes only the symbol being visited, so every symbol of the set as it
  stood at the call is visited once.
\<close>

definition handleClientDisconnection :: "string \<Rightarrow> WebSocketService \<Rightarrow> WebSocketService" where
  "handleClientDisconnection clientId ws =
     (case map_of (clients ws) clientId of
        None \<Rightarrow> ws
      | Some client \<Rightarrow>
          (let ws1 = fold (unsubscribeClientFromSymbol clientId) (subscribedSymbols client) ws
           in ws1\<lparr>clients := AList.delete clientId (clients ws1)\<rparr>))"

text \<open>The socket handlers: \<open>connection\<close>, \<open>subscribe\<close>, \<open>unsubscribe\<close>.\<close>

definition popularSymbols :: "symbol list" where
  "popularSymbols = [''AAPL'', ''GOOGL'', ''MSFT'', ''TSLA'', ''BTC/USD'', ''ETH/USD'']"

definition on_subscribe :: "string \<Rightarrow> symbol list \<Rightarrow> WebSocketService \<Rightarrow> WebSocketService" where
  "on_subscribe clientId symbols ws = fold (subscribeClientToSymbol clientId) symbols ws"

definition on_unsubscribe :: "string \<Rightarrow> symbol list \<Rightarrow> WebSocketService \<Rightarrow> WebSocketService" where
  "on_unsubscribe clientId symbols ws = fold (unsubscribeClientFromSymbol clientId) symbols ws"

definition on_connection :: "string \<Rightarrow> WebSocketService \<Rightarrow> WebSocketService" where
  "on_connection socketId ws =
     on_subscribe socketId popularSymbols
       (ws\<lparr>clients := AList.update socketId
              \<lparr>client_id = socketId, userId = None, subscribedSymbols = [], rooms = []\<rparr>
              (clients ws)\<rparr>)"

text \<open>The services as constructed at process start.\<close>

definition initialMarketDataService :: MarketDataService where
  "initialMarketDataService =
     \<lparr>memoryCache = [], mdSubscribedSymbols = [], requestQueue = [],
      lastRequestTime = 0, requestCount = 0, httpRequests = 0, priceUpdates = []\<rparr>"

definition initialWebSocketService :: WebSocketService where
  "initialWebSocketService =
     \<lparr>clients = [], symbolSubscriptions = [], marketDataService = initialMarketDataService\<rparr>"

subsection \<open>Inputs used in the examples\<close>

definition sample_draws :: "real \<Rightarrow> real \<Rightarrow> draws" where
  "sample_draws b c = \<lparr>r_base = b, r_change = c, r_volume = 0, r_high = 0, r_low = 0\<rparr>"

definition live_upstream :: upstream where
  "live_upstream =
     \<lparr>crypto_trades = Returns (Some (trade_quote ''BTC/USD'' 65000 1 0)),
      stock_snapshot = Returns (trade_quote ''AAPL'' 150 1 0)\<rparr>"

definition failing_upstream :: "string \<Rightarrow> upstream" where
  "failing_upstream m = \<lparr>crypto_trades = Throws m, stock_snapshot = Throws m\<rparr>"

definition stock_call :: "int \<Rightarrow> fetch_call" where
  "stock_call t =
     \<lparr>call_symbol = ''AAPL'', call_time = t, call_draws = sample_draws 0 (1/2),
      call_upstream = live_upstream\<rparr>"

subsection \<open>Registry consistency\<close>

definition subscribers_of :: "WebSocketService \<Rightarrow> symbol \<Rightarrow> string set" where
  "subscribers_of ws s =
     (case map_of (symbolSubscriptions ws) s of None \<Rightarrow> {} | Some subscribers \<Rightarrow> set subscribers)"

text \<open>
  Bidirectional consistency, as a statement over all clients and symbols: a connected
  client is among the subscribers of a symbol exactly when the symbol is in its own set,
  and no key of \<open>symbolSubscriptions\<close> maps to an empty set.
\<close>

definition consistent :: "WebSocketService \<Rightarrow> bool" where
  "consistent ws =
     ((\<forall>c client s. map_of (clients ws) c = Some client \<longrightarrow>
          (c \<in> subscribers_of ws s \<longleftrightarrow> s \<in> set (subscribedSymbols client)))
      \<and> (\<forall>s subscribers. map_of (symbolSubscriptions ws) s = Some subscribers \<longrightarrow> subscribers \<noteq> []))"

text \<open>The same property as a test that runs over the keys of the two maps.\<close>

definition consistent_check :: "WebSocketService \<Rightarrow> bool" where
  "consistent_check ws =
     ((\<forall>c \<in> set (map fst (clients ws)).
         case map_of (clients ws) c of
           None \<Rightarrow> True
         | Some client \<Rightarrow>
             (\<forall>s \<in> set (subscribedSymbols client). c \<in> subscribers_of ws s)
             \<and> (\<forall>s \<in> set (map fst (symbolSubscriptions ws)).
                   c \<in> subscribers_of ws s \<longrightarrow> s \<in> set (subscribedSymbols client)))
      \<and> (\<forall>s \<in> set (map fst (symbolSubscriptions ws)). map_of (symbolSubscriptions ws) s \<noteq> Some []))"

text \<open>
  Every client id in a subscriber set belongs to a connected client.
\<close>

definition no_stale_subscribers :: "WebSocketService \<Rightarrow> bool" where
  "no_stale_subscribers ws =
     (\<forall>s c. c \<in> subscribers_of ws s \<longrightarrow> map_of (clients ws) c \<noteq> None)"

text \<open>
  The states of the registry that the socket events can produce from the state at
  process start; socket ids are unique among the connected clients.
\<close>

inductive reachable :: "WebSocketService \<Rightarrow> bool" where
  start: "reachable initialWebSocketService"
| connection: "reachable ws \<Longrightarrow> map_of (clients ws) c = None \<Longrightarrow> reachable (on_connection c ws)"
| subscribe: "reachable ws \<Longrightarrow> reachable (on_subscribe c symbols ws)"
| unsubscribe: "reachable ws \<Longrightarrow> reachable (on_unsubscribe c symbols ws)"
| disconnect: "reachable ws \<Longrightarrow> reachable (handleClientDisconnection c ws)"

section \<open>The quote cache\<close>

lemma cache_get_absent: "map_of mc key = None \<Longrightarrow> cache_get key t mc = (None, mc)"
  by (simp add: cache_get_def)

lemma getMarketData_absent:
  "map_of mc (market_key s) = None \<Longrightarrow> getMarketData s t mc = (None, mc)"
  by (simp add: getMarketData_def)

text \<open>
  C7. A \<open>get\<close> (and a \<open>getMarketData\<close>) of an entry whose expiry is at or before the
  time of the call returns what a \<open>get\<close> of a key that is not in the map returns,
  namely \<open>null\<close>, and the call removes the expired slot from the map, leaving every
  other key as it was.
\<close>

theorem expired_get_like_missing:
  assumes "map_of mc key = Some e" and "expiry e \<le> t" and "map_of mc' key = None"
    and "map_of mcq (market_key s) = Some e'" and "expiry e' \<le> t"
    and "map_of mcq' (market_key s) = None"
  shows "fst (cache_get key t mc) = fst (cache_get key t mc')
         \<and> fst (cache_get key t mc) = None
         \<and> key \<notin> fst ` set (snd (cache_get key t mc))
         \<and> (\<forall>k. k \<noteq> key \<longrightarrow> map_of (snd (cache_get key t mc)) k = map_of mc k)
         \<and> fst (getMarketData s t mcq) = fst (getMarketData s t mcq')
         \<and> fst (getMarketData s t mcq) = None
         \<and> market_key s \<notin> fst ` set (snd (getMarketData s t mcq))
         \<and> (\<forall>k. k \<noteq> market_key s \<longrightarrow> map_of (snd (getMarketData s t mcq)) k = map_of mcq k)"
  using assms
  by (simp add: cache_get_def getMarketData_def AList.delete_conv' AList.delete_notin_dom)

theorem expired_get_like_missing_witness:
  "fst (cache_get ''simulated_AAPL'' 400000
          [(''simulated_AAPL'', \<lparr>value = SimulatedValue 100 100000, expiry = 400000\<rparr>)])
     = fst (cache_get ''simulated_AAPL'' 400000 [])
   \<and> fst (cache_get ''simulated_AAPL'' 400000 []) = None
   \<and> snd (cache_get ''simulated_AAPL'' 400000
          [(''simulated_AAPL'', \<lparr>value = SimulatedValue 100 100000, expiry = 400000\<rparr>)]) = []
   \<and> fst (getMarketData ''AAPL'' 400000
          [(''market:AAPL'', \<lparr>value = MarketDataValue (trade_quote ''AAPL'' 10 1 1000),
                               expiry = 61000\<rparr>)])
     = fst (getMarketData ''AAPL'' 400000 [])"
  using expired_get_like_missing
    [of "[(''simulated_AAPL'', \<lparr>value = SimulatedValue 100 100000, expiry = 400000\<rparr>)]"
        "''simulated_AAPL''" "\<lparr>value = SimulatedValue 100 100000, expiry = 400000\<rparr>"
        400000 "[]"
        "[(''market:AAPL'', \<lparr>value = MarketDataValue (trade_quote ''AAPL'' 10 1 1000),
                              expiry = 61000\<rparr>)]"
        "''AAPL''"
        "\<lparr>value = MarketDataValue (trade_quote ''AAPL'' 10 1 1000), expiry = 61000\<rparr>"
        "[]"]
  by (simp add: market_key_def cache_get_def)

text \<open>
  C1 (as the code has it). \<open>setMarketData\<close> overwrites without looking at the
  timestamp of the quote it replaces: after two writes for a symbol the cache holds the
  quote of the write that arrived last, with a fresh 60 s expiry, and a read before that
  expiry returns it. So the cache reflects the later-stamped quote when that quote
  arrives last. The same holds for writes made through \<open>processMarketData\<close>.
\<close>

theorem last_arrival_wins:
  "map_of (setMarketData s d2 t2 (setMarketData s d1 t1 mc)) (market_key s)
     = Some \<lparr>value = d2, expiry = t2 + 60000\<rparr>
   \<and> (t < t2 + 60000 \<longrightarrow>
        fst (getMarketData s t (setMarketData s d2 t2 (setMarketData s d1 t1 mc))) = Some d2)
   \<and> map_of (memoryCache (processMarketData d2 t2 (processMarketData d1 t1 st)))
        (market_key (symbol_of d2))
     = Some \<lparr>value = d2, expiry = t2 + 60000\<rparr>"
  by (simp add: getMarketData_def setMarketData_def processMarketData_def AList.update_conv')

theorem last_arrival_wins_witness:
  "(5002::int) < 5001 + 60000
   \<and> fst (getMarketData ''AAPL'' 5002
        (setMarketData ''AAPL'' (MarketDataValue (trade_quote ''AAPL'' 20 1 2000)) 5001
          (setMarketData ''AAPL'' (MarketDataValue (trade_quote ''AAPL'' 10 1 1000)) 5000 [])))
      = Some (MarketDataValue (trade_quote ''AAPL'' 20 1 2000))"
  using last_arrival_wins
    [of "''AAPL''" "MarketDataValue (trade_quote ''AAPL'' 20 1 2000)" 5001
        "MarketDataValue (trade_quote ''AAPL'' 10 1 1000)" 5000 "[]" 5002]
  by simp

text \<open>
  C1 as stated fails: the quote stamped 2000 is written first, the quote stamped 1000
  arrives after it, and the cache then holds the quote stamped 1000.
\<close>

theorem stale_write_overwrites:
  "fst (getMarketData ''AAPL'' 5002
        (setMarketData ''AAPL'' (MarketDataValue (trade_quote ''AAPL'' 10 1 1000)) 5001
          (setMarketData ''AAPL'' (MarketDataValue (trade_quote ''AAPL'' 20 1 2000)) 5000 [])))
     = Some (MarketDataValue (trade_quote ''AAPL'' 10 1 1000))
   \<and> timestamp (trade_quote ''AAPL'' 10 1 1000) < timestamp (trade_quote ''AAPL'' 20 1 2000)"
  by (simp add: getMarketData_def setMarketData_def trade_quote_def)

section \<open>Fetching: rate limit, fallback and the generator\<close>

subsection \<open>What each step of a fetch changes\<close>

lemma generateSimulatedData_frame:
  "requestCount (snd (generateSimulatedData s now d st)) = requestCount st"
  "lastRequestTime (snd (generateSimulatedData s now d st)) = lastRequestTime st"
  "httpRequests (snd (generateSimulatedData s now d st)) = httpRequests st"
  "requestQueue (snd (generateSimulatedData s now d st)) = requestQueue st"
  "priceUpdates (snd (generateSimulatedData s now d st)) = priceUpdates st"
  "mdSubscribedSymbols (snd (generateSimulatedData s now d st)) = mdSubscribedSymbols st"
  by (simp_all add: generateSimulatedData_def Let_def split: prod.splits)

lemma try_fetch_frame:
  "requestCount (snd (try_fetch s now d up st)) = requestCount st"
  "lastRequestTime (snd (try_fetch s now d up st)) = lastRequestTime st"
  "httpRequests (snd (try_fetch s now d up st)) > httpRequests st"
  by (simp_all add: try_fetch_def count_requests_def generateSimulatedData_frame
      case_prod_beta split: outcome.splits option.splits)

lemma limited_no_reset:
  "requestCount (reset_window now st) \<ge> maxRequestsPerWindow \<Longrightarrow> reset_window now st = st"
  by (simp add: reset_window_def maxRequestsPerWindow_def split: if_splits)

lemma fetchAlpacaData_forex:
  "isForexSymbol s \<Longrightarrow>
   fetchAlpacaData s now d up st =
     (Some (fst (generateSimulatedData s now d st)), snd (generateSimulatedData s now d st))"
  by (simp add: fetchAlpacaData_def split: prod.splits)

lemma fetchAlpacaData_limited:
  "\<not> isForexSymbol s \<Longrightarrow> requestCount (reset_window now st) \<ge> maxRequestsPerWindow \<Longrightarrow>
   fetchAlpacaData s now d up st = (None, st)"
proof -
  assume a: "\<not> isForexSymbol s" "requestCount (reset_window now st) \<ge> maxRequestsPerWindow"
  then have "reset_window now st = st" by (simp add: limited_no_reset)
  with a show ?thesis by (simp add: fetchAlpacaData_def Let_def)
qed

lemma fetchAlpacaData_admitted:
  assumes "\<not> isForexSymbol s" and "requestCount (reset_window now st) < maxRequestsPerWindow"
  shows "requestCount (snd (fetchAlpacaData s now d up st)) = requestCount (reset_window now st) + 1"
    and "lastRequestTime (snd (fetchAlpacaData s now d up st)) = lastRequestTime (reset_window now st)"
    and "httpRequests (snd (fetchAlpacaData s now d up st)) > httpRequests st"
proof -
  let ?st2 = "(reset_window now st)\<lparr>requestCount := requestCount (reset_window now st) + 1\<rparr>"
  have h: "httpRequests (reset_window now st) = httpRequests st"
    by (simp add: reset_window_def)
  have t: "requestCount (snd (try_fetch s now d up ?st2)) = requestCount (reset_window now st) + 1"
     "lastRequestTime (snd (try_fetch s now d up ?st2)) = lastRequestTime (reset_window now st)"
     "httpRequests (snd (try_fetch s now d up ?st2)) > httpRequests st"
    using try_fetch_frame[where s=s and now=now and d=d and up=up and st="?st2"] h by simp_all
  obtain r st3 where tf: "try_fetch s now d up ?st2 = (r, st3)" by (cases "try_fetch s now d up ?st2")
  with t have t3: "requestCount st3 = requestCount (reset_window now st) + 1"
     "lastRequestTime st3 = lastRequestTime (reset_window now st)"
     "httpRequests st3 > httpRequests st" by simp_all
  have eq: "snd (fetchAlpacaData s now d up st) =
     (case r of Inr x \<Rightarrow> st3 | Inl m \<Rightarrow> snd (generateSimulatedData s now d st3))"
    using assms tf by (simp add: fetchAlpacaData_def Let_def split: sum.splits prod.splits)
  show "requestCount (snd (fetchAlpacaData s now d up st)) = requestCount (reset_window now st) + 1"
    using eq t3 by (simp add: generateSimulatedData_frame split: sum.splits)
  show "lastRequestTime (snd (fetchAlpacaData s now d up st)) = lastRequestTime (reset_window now st)"
    using eq t3 by (simp add: generateSimulatedData_frame split: sum.splits)
  show "httpRequests (snd (fetchAlpacaData s now d up st)) > httpRequests st"
    using eq t3 by (simp add: generateSimulatedData_frame split: sum.splits)
qed

lemma fetchAlpacaData_throws:
  assumes "\<not> isForexSymbol s"
    and "requestCount (reset_window now st) < maxRequestsPerWindow"
    and "if str_includes s ''/'' then crypto_trades up = Throws m else stock_snapshot up = Throws m"
  shows "fetchAlpacaData s now d up st =
           (Some (fst (generateSimulatedData s now d (admitted_state now st))),
            snd (generateSimulatedData s now d (admitted_state now st)))"
  using assms
  by (simp add: fetchAlpacaData_def Let_def try_fetch_def admitted_state_def case_prod_beta
      split: if_splits)

lemma fetchAlpacaData_no_trade:
  assumes "\<not> isForexSymbol s"
    and "requestCount (reset_window now st) < maxRequestsPerWindow"
    and "str_includes s ''/''" and "crypto_trades up = Returns None"
  shows "fetchAlpacaData s now d up st =
           (Some (fst (generateSimulatedData s now d (admitted_state now st))),
            snd (generateSimulatedData s now d (admitted_state now st)))"
  using assms
  by (simp add: fetchAlpacaData_def Let_def try_fetch_def admitted_state_def case_prod_beta)

subsection \<open>Runs of admitted stock fetches\<close>

lemma issued_times_append:
  "issued_times (xs @ ys) st = issued_times xs st @ issued_times ys (run_fetches xs st)"
  by (induction xs arbitrary: st) (simp_all add: Let_def)

lemma not_forex_AAPL: "\<not> isForexSymbol ''AAPL''"
  by (simp add: isForexSymbol_def forexPairs_def)

lemma stock_call_step:
  assumes "t - lastRequestTime st \<le> rateLimitWindow" and "requestCount st < maxRequestsPerWindow"
  shows "fetch (stock_call t) st =
           (Some (trade_quote ''AAPL'' 150 1 0),
            st\<lparr>requestCount := requestCount st + 1, httpRequests := httpRequests st + 2\<rparr>)"
  using assms not_forex_AAPL
  by (simp add: fetch_def stock_call_def fetchAlpacaData_def reset_window_def Let_def
      try_fetch_def live_upstream_def count_requests_def)

lemma stock_call_reset_step:
  assumes "t - lastRequestTime st > rateLimitWindow"
  shows "fetch (stock_call t) st =
           (Some (trade_quote ''AAPL'' 150 1 0),
            st\<lparr>lastRequestTime := t, requestCount := 1, httpRequests := httpRequests st + 2\<rparr>)"
  using assms not_forex_AAPL
  by (simp add: fetch_def stock_call_def fetchAlpacaData_def reset_window_def Let_def
      try_fetch_def live_upstream_def count_requests_def maxRequestsPerWindow_def)

lemma stock_calls_run:
  assumes "t - lastRequestTime st \<le> rateLimitWindow"
    and "requestCount st + n \<le> maxRequestsPerWindow"
  shows "run_fetches (replicate n (stock_call t)) st =
           st\<lparr>requestCount := requestCount st + n, httpRequests := httpRequests st + 2 * n\<rparr>
         \<and> issued_times (replicate n (stock_call t)) st = replicate n t"
  using assms
proof (induction n arbitrary: st)
  case 0
  then show ?case by simp
next
  case (Suc n)
  let ?st' = "st\<lparr>requestCount := requestCount st + 1, httpRequests := httpRequests st + 2\<rparr>"
  have step: "fetch (stock_call t) st = (Some (trade_quote ''AAPL'' 150 1 0), ?st')"
    using Suc.prems by (simp add: stock_call_step)
  have "run_fetches (replicate n (stock_call t)) ?st' =
           ?st'\<lparr>requestCount := requestCount ?st' + n, httpRequests := httpRequests ?st' + 2 * n\<rparr>
         \<and> issued_times (replicate n (stock_call t)) ?st' = replicate n t"
    using Suc.IH[of ?st'] Suc.prems by simp
  then show ?case using step by (simp add: Let_def stock_call_def)
qed

subsection \<open>The call budget\<close>

text \<open>
  The limiter of \<open>fetchAlpacaData\<close> as a function of the clock values at which it is
  called. It keeps one counter per fixed window: a fetch that arrives more than
  \<open>rateLimitWindow\<close> (60000 ms) after the previous reset sets the counter back and
  starts the next window; within a window at most \<open>maxRequestsPerWindow\<close> (300) fetches
  are admitted, and a fetch that finds the budget exhausted returns \<open>null\<close> with the
  state unchanged (\<open>fetchAlpacaData_limited\<close>).

  C2 is about something else: the executions of the scheduler in real time. How many
  fetches fall in a rolling window there is decided by when the three interval timers
  fire and by how long their overlapping asynchronous batches wait on the network
  (the crypto requests carry no timeout), which these definitions take as inputs and do
  not determine. The lemmas of this subsection record what the limiter guarantees by
  itself; they are not a statement about those executions.
\<close>

lemma budget_within_window:
  assumes "\<forall>c\<in>set cs. call_time c - lastRequestTime st \<le> rateLimitWindow"
    and "requestCount st \<le> maxRequestsPerWindow"
  shows "length (issued_times cs st) + requestCount st \<le> maxRequestsPerWindow"
  using assms
proof (induction cs arbitrary: st)
  case Nil
  then show ?case by simp
next
  case (Cons c cs)
  let ?st' = "snd (fetch c st)"
  have nr: "reset_window (call_time c) st = st"
    using Cons.prems(1) by (simp add: reset_window_def)
  show ?case
  proof (cases "isForexSymbol (call_symbol c)")
    case True
    then have "requestCount ?st' = requestCount st" "lastRequestTime ?st' = lastRequestTime st"
      "httpRequests ?st' = httpRequests st"
      by (simp_all add: fetch_def fetchAlpacaData_forex generateSimulatedData_frame)
    then show ?thesis using Cons.IH[of ?st'] Cons.prems by (simp add: Let_def)
  next
    case False
    show ?thesis
    proof (cases "requestCount st \<ge> maxRequestsPerWindow")
      case True
      then have "fetch c st = (None, st)"
        using False nr by (simp add: fetch_def fetchAlpacaData_limited)
      then show ?thesis using Cons.IH[of st] Cons.prems by (simp add: Let_def)
    next
      case lt: False
      then have "requestCount ?st' = requestCount st + 1" "lastRequestTime ?st' = lastRequestTime st"
        using False nr fetchAlpacaData_admitted[where s="call_symbol c" and now="call_time c" and st=st]
        by (simp_all add: fetch_def)
      then show ?thesis using Cons.IH[of ?st'] Cons.prems lt by (simp add: Let_def)
    qed
  qed
qed

lemma limiter_reset:
  assumes "\<not> isForexSymbol s" and "now - lastRequestTime st > rateLimitWindow"
  shows "requestCount (snd (fetchAlpacaData s now d up st)) = 1"
    and "lastRequestTime (snd (fetchAlpacaData s now d up st)) = now"
    and "httpRequests (snd (fetchAlpacaData s now d up st)) > httpRequests st"
proof -
  have rw: "reset_window now st = st\<lparr>requestCount := 0, lastRequestTime := now\<rparr>"
    using assms(2) by (simp add: reset_window_def)
  then have lt: "requestCount (reset_window now st) < maxRequestsPerWindow"
    by (simp add: maxRequestsPerWindow_def)
  show "requestCount (snd (fetchAlpacaData s now d up st)) = 1"
    using fetchAlpacaData_admitted(1)[OF assms(1) lt] rw by simp
  show "lastRequestTime (snd (fetchAlpacaData s now d up st)) = now"
    using fetchAlpacaData_admitted(2)[OF assms(1) lt] rw by simp
  show "httpRequests (snd (fetchAlpacaData s now d up st)) > httpRequests st"
    using fetchAlpacaData_admitted(3)[OF assms(1) lt] .
qed

lemma limiter_count:
  assumes "\<not> isForexSymbol s" and "now - lastRequestTime st \<le> rateLimitWindow"
    and "requestCount st < maxRequestsPerWindow"
  shows "requestCount (snd (fetchAlpacaData s now d up st)) = requestCount st + 1"
    and "lastRequestTime (snd (fetchAlpacaData s now d up st)) = lastRequestTime st"
    and "httpRequests (snd (fetchAlpacaData s now d up st)) > httpRequests st"
proof -
  have rw: "reset_window now st = st"
    using assms(2) by (simp add: reset_window_def)
  then have lt: "requestCount (reset_window now st) < maxRequestsPerWindow"
    using assms(3) by simp
  show "requestCount (snd (fetchAlpacaData s now d up st)) = requestCount st + 1"
    using fetchAlpacaData_admitted(1)[OF assms(1) lt] rw by simp
  show "lastRequestTime (snd (fetchAlpacaData s now d up st)) = lastRequestTime st"
    using fetchAlpacaData_admitted(2)[OF assms(1) lt] rw by simp
  show "httpRequests (snd (fetchAlpacaData s now d up st)) > httpRequests st"
    using fetchAlpacaData_admitted(3)[OF assms(1) lt] .
qed

lemma limiter_skip:
  assumes "\<not> isForexSymbol s" and "now - lastRequestTime st \<le> rateLimitWindow"
    and "requestCount st \<ge> maxRequestsPerWindow"
  shows "fetchAlpacaData s now d up st = (None, st)"
proof -
  have "reset_window now st = st"
    using assms(2) by (simp add: reset_window_def)
  then show ?thesis
    using assms(1,3) by (simp add: fetchAlpacaData_limited)
qed

text \<open>
  From a fetch that resets the counter, and for as long as no later fetch resets it
  again, at most 300 fetches issue an upstream request.
\<close>

lemma fixed_window_budget:
  assumes "\<not> isForexSymbol (call_symbol c0)"
    and "call_time c0 - lastRequestTime st > rateLimitWindow"
    and "\<forall>c\<in>set cs. call_time c - call_time c0 \<le> rateLimitWindow"
  shows "length (issued_times (c0 # cs) st) \<le> maxRequestsPerWindow"
proof -
  let ?st1 = "snd (fetch c0 st)"
  have s1: "requestCount ?st1 = 1" "lastRequestTime ?st1 = call_time c0"
    using limiter_reset(1,2)[OF assms(1,2)] by (simp_all add: fetch_def)
  have "length (issued_times cs ?st1) + requestCount ?st1 \<le> maxRequestsPerWindow"
    using budget_within_window[of cs ?st1] assms(3) s1 by (simp add: maxRequestsPerWindow_def)
  then show ?thesis
    using s1 by (simp add: Let_def)
qed

text \<open>
  The window is fixed, not rolling. When \<open>fetchAlpacaData\<close> is called directly at these
  clock values (this is not the timetable of the interval timers), one fetch at 100000
  opens a window, 299 fetches at 160000 use up its budget, the fetch at 160001 resets
  the counter and 299 more follow: all are issued, and 599 of them lie in the 60000 ms
  that end at 160001.
\<close>

lemma direct_calls_across_reset:
  "calls_in_window 160001
     (issued_times
        ([stock_call 100000] @ replicate 299 (stock_call 160000)
           @ [stock_call 160001] @ replicate 299 (stock_call 160001))
        initialMarketDataService) = 599
   \<and> maxRequestsPerWindow = 300"
proof -
  let ?s1 = "initialMarketDataService\<lparr>lastRequestTime := 100000, requestCount := 1, httpRequests := 2\<rparr>"
  let ?s2 = "?s1\<lparr>requestCount := 300, httpRequests := 600\<rparr>"
  let ?s3 = "?s2\<lparr>lastRequestTime := 160001, requestCount := 1, httpRequests := 602\<rparr>"
  have f1: "fetch (stock_call 100000) initialMarketDataService = (Some (trade_quote ''AAPL'' 150 1 0), ?s1)"
    using stock_call_reset_step[where st=initialMarketDataService and t=100000]
    by (simp add: initialMarketDataService_def rateLimitWindow_def)
  have r2: "run_fetches (replicate 299 (stock_call 160000)) ?s1 = ?s2
            \<and> issued_times (replicate 299 (stock_call 160000)) ?s1 = replicate 299 160000"
    using stock_calls_run[where t=160000 and st="?s1" and n=299]
    by (simp add: initialMarketDataService_def rateLimitWindow_def maxRequestsPerWindow_def)
  have f3: "fetch (stock_call 160001) ?s2 = (Some (trade_quote ''AAPL'' 150 1 0), ?s3)"
    using stock_call_reset_step[where st="?s2" and t=160001]
    by (simp add: initialMarketDataService_def rateLimitWindow_def)
  have r4: "issued_times (replicate 299 (stock_call 160001)) ?s3 = replicate 299 160001"
    using stock_calls_run[where t=160001 and st="?s3" and n=299]
    by (simp add: initialMarketDataService_def rateLimitWindow_def maxRequestsPerWindow_def)
  have "issued_times
        ([stock_call 100000] @ replicate 299 (stock_call 160000)
           @ [stock_call 160001] @ replicate 299 (stock_call 160001))
        initialMarketDataService
      = [100000] @ replicate 299 160000 @ [160001] @ replicate 299 160001"
    using f1 r2 f3 r4
    by (simp add: issued_times_append Let_def initialMarketDataService_def stock_call_def)
  then show ?thesis
    by (simp add: calls_in_window_def rateLimitWindow_def maxRequestsPerWindow_def)
qed

subsection \<open>Failures of the upstream fetch\<close>

text \<open>
  C3 (as the code has it). For a symbol that is not a forex pair: when the fetch is
  admitted and the upstream request throws (a network error or timeout as much as a
  404, not-found or forbidden rejection), or a crypto response carries no trade for the
  symbol, \<open>fetchAlpacaData\<close> returns the quote of \<open>generateSimulatedData\<close>; the same
  path serves all of these. When the budget is exhausted it returns \<open>null\<close> instead,
  without calling the generator. In no case does an error reach the caller.
\<close>

theorem fetch_failure_handling:
  assumes "\<not> isForexSymbol s"
  shows "(requestCount (reset_window now st) < maxRequestsPerWindow
          \<and> (if str_includes s ''/'' then crypto_trades up = Throws m
              else stock_snapshot up = Throws m)
          \<longrightarrow> fetchAlpacaData s now d up st =
                (Some (fst (generateSimulatedData s now d (admitted_state now st))),
                 snd (generateSimulatedData s now d (admitted_state now st))))
       \<and> (requestCount (reset_window now st) < maxRequestsPerWindow
          \<and> str_includes s ''/'' \<and> crypto_trades up = Returns None
          \<longrightarrow> fetchAlpacaData s now d up st =
                (Some (fst (generateSimulatedData s now d (admitted_state now st))),
                 snd (generateSimulatedData s now d (admitted_state now st))))
       \<and> (requestCount (reset_window now st) \<ge> maxRequestsPerWindow
          \<longrightarrow> fetchAlpacaData s now d up st = (None, st))"
  using assms fetchAlpacaData_throws fetchAlpacaData_no_trade fetchAlpacaData_limited
  by blast

theorem fetch_failure_handling_witness:
  "\<not> isForexSymbol ''AAPL''
   \<and> requestCount (reset_window 100001 initialMarketDataService) < maxRequestsPerWindow
   \<and> stock_snapshot (failing_upstream ''timeout of 2000ms exceeded'')
       = Throws ''timeout of 2000ms exceeded''
   \<and> fst (fetchAlpacaData ''AAPL'' 100001 (sample_draws 0 (1/2))
            (failing_upstream ''timeout of 2000ms exceeded'') initialMarketDataService)
       = Some \<lparr>symbol = ''AAPL'', price = 50, change = 0, changePercent = 0, volume = 100000,
               high = 50, low = 50, open_price = 50, previousClose = 50, timestamp = 100001\<rparr>
   \<and> \<not> isForexSymbol ''BTC/USD''
   \<and> str_includes ''BTC/USD'' ''/''
   \<and> crypto_trades (failing_upstream ''Request failed with status code 404'')
       = Throws ''Request failed with status code 404''
   \<and> price (the (fst (fetchAlpacaData ''BTC/USD'' 100001 (sample_draws 0 (1/2))
            (failing_upstream ''Request failed with status code 404'')
            initialMarketDataService))) = 65000
   \<and> requestCount (reset_window 100001
         (initialMarketDataService\<lparr>lastRequestTime := 100000, requestCount := 300\<rparr>))
       \<ge> maxRequestsPerWindow
   \<and> fetchAlpacaData ''AAPL'' 100001 (sample_draws 0 (1/2))
         (failing_upstream ''timeout of 2000ms exceeded'')
         (initialMarketDataService\<lparr>lastRequestTime := 100000, requestCount := 300\<rparr>)
       = (None, initialMarketDataService\<lparr>lastRequestTime := 100000, requestCount := 300\<rparr>)"
  using fetch_failure_handling
    [where s = "''AAPL''" and now = 100001 and st = initialMarketDataService
       and up = "failing_upstream ''timeout of 2000ms exceeded''"
       and m = "''timeout of 2000ms exceeded''" and d = "sample_draws 0 (1/2)"]
    fetch_failure_handling
    [where s = "''BTC/USD''" and now = 100001 and st = initialMarketDataService
       and up = "failing_upstream ''Request failed with status code 404''"
       and m = "''Request failed with status code 404''" and d = "sample_draws 0 (1/2)"]
    fetch_failure_handling
    [where s = "''AAPL''" and now = 100001
       and st = "initialMarketDataService\<lparr>lastRequestTime := 100000, requestCount := 300\<rparr>"
       and up = "failing_upstream ''timeout of 2000ms exceeded''"
       and m = "''timeout of 2000ms exceeded''" and d = "sample_draws 0 (1/2)"]
  by (simp add: isForexSymbol_def forexPairs_def initialMarketDataService_def
      rateLimitWindow_def reset_window_def maxRequestsPerWindow_def failing_upstream_def
      generateSimulatedData_def Let_def case_prod_beta basePrice_of_def
      defaultBasePrice_def sample_draws_def)

text \<open>
  C3 as stated fails on the rate-limit kind: after 300 admitted fetches in one window,
  the next fetch in that window returns \<open>null\<close>, not a synthetic quote.
\<close>

theorem rate_limited_fetch_returns_null:
  "fst (fetchAlpacaData ''AAPL'' 100001 (sample_draws 0 (1/2))
         (failing_upstream ''timeout of 2000ms exceeded'')
         (run_fetches (stock_call 100000 # replicate 299 (stock_call 100000))
            initialMarketDataService)) = None"
proof -
  let ?s1 = "initialMarketDataService\<lparr>lastRequestTime := 100000, requestCount := 1, httpRequests := 2\<rparr>"
  let ?s2 = "?s1\<lparr>requestCount := 300, httpRequests := 600\<rparr>"
  have f1: "fetch (stock_call 100000) initialMarketDataService
              = (Some (trade_quote ''AAPL'' 150 1 0), ?s1)"
    using stock_call_reset_step[where st = initialMarketDataService and t = 100000]
    by (simp add: initialMarketDataService_def rateLimitWindow_def)
  have r2: "run_fetches (replicate 299 (stock_call 100000)) ?s1 = ?s2"
    using stock_calls_run[where t = 100000 and st = "?s1" and n = 299]
    by (simp add: initialMarketDataService_def rateLimitWindow_def maxRequestsPerWindow_def)
  have "requestCount (reset_window 100001 ?s2) \<ge> maxRequestsPerWindow"
    by (simp add: reset_window_def rateLimitWindow_def maxRequestsPerWindow_def
        initialMarketDataService_def)
  then have "fetchAlpacaData ''AAPL'' 100001 (sample_draws 0 (1/2))
         (failing_upstream ''timeout of 2000ms exceeded'') ?s2 = (None, ?s2)"
    using not_forex_AAPL by (rule fetchAlpacaData_limited[rotated])
  then show ?thesis using f1 r2 by simp
qed

subsection \<open>Forex symbols\<close>

text \<open>
  C10. For every symbol of the forex list, \<open>fetchAlpacaData\<close> returns the quote of
  \<open>generateSimulatedData\<close> at once: it issues no upstream request and leaves the
  request counter and the window start as they were.
\<close>

theorem forex_fetch_is_simulated:
  assumes "s \<in> set [''EUR/USD'', ''GBP/USD'', ''USD/JPY'', ''USD/CHF'', ''AUD/USD'',
                     ''USD/CAD'', ''NZD/USD'', ''EUR/GBP'', ''EUR/JPY'', ''GBP/JPY'']"
  shows "fetchAlpacaData s now d up st =
           (Some (fst (generateSimulatedData s now d st)), snd (generateSimulatedData s now d st))
         \<and> httpRequests (snd (fetchAlpacaData s now d up st)) = httpRequests st
         \<and> requestCount (snd (fetchAlpacaData s now d up st)) = requestCount st
         \<and> lastRequestTime (snd (fetchAlpacaData s now d up st)) = lastRequestTime st"
proof -
  from assms have "isForexSymbol s"
    by (simp add: isForexSymbol_def forexPairs_def)
  then have "fetchAlpacaData s now d up st =
           (Some (fst (generateSimulatedData s now d st)), snd (generateSimulatedData s now d st))"
    by (rule fetchAlpacaData_forex)
  then show ?thesis by (simp add: generateSimulatedData_frame)
qed

theorem forex_fetch_is_simulated_witness:
  "''USD/JPY'' \<in> set [''EUR/USD'', ''GBP/USD'', ''USD/JPY'', ''USD/CHF'', ''AUD/USD'',
                     ''USD/CAD'', ''NZD/USD'', ''EUR/GBP'', ''EUR/JPY'', ''GBP/JPY'']
   \<and> fst (fetchAlpacaData ''USD/JPY'' 100001 (sample_draws 0 (1/2)) live_upstream
            (initialMarketDataService\<lparr>lastRequestTime := 100000, requestCount := 300\<rparr>))
       = Some \<lparr>symbol = ''USD/JPY'', price = 140, change = 0, changePercent = 0,
               volume = 100000, high = 140, low = 140, open_price = 140,
               previousClose = 140, timestamp = 100001\<rparr>
   \<and> httpRequests (snd (fetchAlpacaData ''USD/JPY'' 100001 (sample_draws 0 (1/2)) live_upstream
            (initialMarketDataService\<lparr>lastRequestTime := 100000, requestCount := 300\<rparr>))) = 0
   \<and> requestCount (snd (fetchAlpacaData ''USD/JPY'' 100001 (sample_draws 0 (1/2)) live_upstream
            (initialMarketDataService\<lparr>lastRequestTime := 100000, requestCount := 300\<rparr>))) = 300"
  using forex_fetch_is_simulated
    [where s = "''USD/JPY''" and now = 100001 and d = "sample_draws 0 (1/2)"
       and up = live_upstream
       and st = "initialMarketDataService\<lparr>lastRequestTime := 100000, requestCount := 300\<rparr>"]
  by (simp add: initialMarketDataService_def generateSimulatedData_def Let_def
      case_prod_beta basePrice_of_def defaultBasePrice_def sample_draws_def
      isForexSymbol_def forexPairs_def)

subsection \<open>The synthetic generator\<close>

lemma generated_quote_ignores_state:
  "fst (generateSimulatedData s now d st) = fst (generateSimulatedData s now d st')"
  by (simp add: generateSimulatedData_def Let_def basePrice_of_def case_prod_beta)

lemma simulated_key_separate: "simulated_key s \<noteq> market_key s'"
  by (simp add: simulated_key_def market_key_def)

lemma generated_price_step:
  assumes "0 \<le> r_change d" and "r_change d < 1"
  shows "\<bar>price (fst (generateSimulatedData s now d st))
           - previousClose (fst (generateSimulatedData s now d st))\<bar>
         \<le> 0.02 * \<bar>previousClose (fst (generateSimulatedData s now d st))\<bar>"
proof -
  let ?b = "defaultBasePrice s (r_base d)"
  have "\<bar>?b * ((r_change d - 0.5) * 4 / 100)\<bar> = \<bar>?b\<bar> * \<bar>(r_change d - 0.5) * 4 / 100\<bar>"
    by (simp add: abs_mult)
  moreover have "\<bar>(r_change d - 0.5) * 4 / 100\<bar> \<le> 0.02"
    using assms by (simp add: abs_le_iff)
  ultimately have "\<bar>?b * ((r_change d - 0.5) * 4 / 100)\<bar> \<le> \<bar>?b\<bar> * 0.02"
    by (simp add: mult_left_mono)
  then show ?thesis
    by (simp add: generateSimulatedData_def Let_def basePrice_of_def case_prod_beta mult.commute)
qed

text \<open>
  C4 on the code. A first synthetic quote for AAPL has price 200 and the generator
  caches that price under \<open>simulated_AAPL\<close> with an expiry of 301000. A second call at
  time 2000 finds that entry unexpired, yet takes its base price from the default range
  for stocks (50 with a draw of 0), so the second quote is 50: not within 2 per cent of
  the cached 200.
\<close>

theorem simulated_base_not_from_cache:
  "price (fst (generateSimulatedData ''AAPL'' 1000 (sample_draws (3/4) (1/2))
                 initialMarketDataService)) = 200
   \<and> map_of (memoryCache (snd (generateSimulatedData ''AAPL'' 1000 (sample_draws (3/4) (1/2))
                 initialMarketDataService))) ''simulated_AAPL''
       = Some \<lparr>value = SimulatedValue 200 1000, expiry = 301000\<rparr>
   \<and> previousClose (fst (generateSimulatedData ''AAPL'' 2000 (sample_draws 0 (1/2))
        (snd (generateSimulatedData ''AAPL'' 1000 (sample_draws (3/4) (1/2))
                 initialMarketDataService)))) = 50
   \<and> price (fst (generateSimulatedData ''AAPL'' 2000 (sample_draws 0 (1/2))
        (snd (generateSimulatedData ''AAPL'' 1000 (sample_draws (3/4) (1/2))
                 initialMarketDataService)))) = 50"
  by (simp add: generateSimulatedData_def Let_def case_prod_beta basePrice_of_def
      defaultBasePrice_def sample_draws_def isForexSymbol_def forexPairs_def
      initialMarketDataService_def cache_get_def cache_set_def simulated_key_def)

section \<open>The subscription registry\<close>

subsection \<open>The check and the statement agree\<close>

lemma consistent_check_iff: "consistent_check ws = consistent ws"
proof
  assume cc: "consistent_check ws"
  show "consistent ws"
    unfolding consistent_def
  proof (intro conjI allI impI)
    fix c client s
    assume m: "map_of (clients ws) c = Some client"
    then have k: "c \<in> set (map fst (clients ws))"
      by (metis map_of_eq_None_iff option.distinct(1) set_map)
    from cc have "\<forall>c \<in> set (map fst (clients ws)).
         case map_of (clients ws) c of
           None \<Rightarrow> True
         | Some client \<Rightarrow>
             (\<forall>s \<in> set (subscribedSymbols client). c \<in> subscribers_of ws s)
             \<and> (\<forall>s \<in> set (map fst (symbolSubscriptions ws)).
                   c \<in> subscribers_of ws s \<longrightarrow> s \<in> set (subscribedSymbols client))"
      unfolding consistent_check_def by (rule conjunct1)
    with k have "case map_of (clients ws) c of
           None \<Rightarrow> True
         | Some client \<Rightarrow>
             (\<forall>s \<in> set (subscribedSymbols client). c \<in> subscribers_of ws s)
             \<and> (\<forall>s \<in> set (map fst (symbolSubscriptions ws)).
                   c \<in> subscribers_of ws s \<longrightarrow> s \<in> set (subscribedSymbols client))"
      by blast
    with m have
      a: "\<forall>s \<in> set (subscribedSymbols client). c \<in> subscribers_of ws s" and
      b: "\<forall>s \<in> set (map fst (symbolSubscriptions ws)).
             c \<in> subscribers_of ws s \<longrightarrow> s \<in> set (subscribedSymbols client)"
      by simp_all
    show "c \<in> subscribers_of ws s \<longleftrightarrow> s \<in> set (subscribedSymbols client)"
    proof
      assume cs: "c \<in> subscribers_of ws s"
      then have "map_of (symbolSubscriptions ws) s \<noteq> None"
        by (auto simp: subscribers_of_def split: option.splits)
      then have "s \<in> set (map fst (symbolSubscriptions ws))"
        by (metis map_of_eq_None_iff set_map)
      with b cs show "s \<in> set (subscribedSymbols client)" by blast
    next
      assume "s \<in> set (subscribedSymbols client)"
      with a show "c \<in> subscribers_of ws s" by blast
    qed
  next
    fix s subscribers
    assume m: "map_of (symbolSubscriptions ws) s = Some subscribers"
    then have "s \<in> set (map fst (symbolSubscriptions ws))"
      by (metis map_of_eq_None_iff option.distinct(1) set_map)
    moreover from cc have "\<forall>s \<in> set (map fst (symbolSubscriptions ws)).
        map_of (symbolSubscriptions ws) s \<noteq> Some []"
      unfolding consistent_check_def by (rule conjunct2)
    ultimately have "map_of (symbolSubscriptions ws) s \<noteq> Some []" by blast
    with m show "subscribers \<noteq> []" by auto
  qed
next
  assume c: "consistent ws"
  show "consistent_check ws"
    unfolding consistent_check_def
  proof (intro conjI ballI)
    fix c' assume "c' \<in> set (map fst (clients ws))"
    show "case map_of (clients ws) c' of None \<Rightarrow> True
          | Some client \<Rightarrow>
             (\<forall>s \<in> set (subscribedSymbols client). c' \<in> subscribers_of ws s)
             \<and> (\<forall>s \<in> set (map fst (symbolSubscriptions ws)).
                   c' \<in> subscribers_of ws s \<longrightarrow> s \<in> set (subscribedSymbols client))"
      using c by (auto simp: consistent_def split: option.splits)
  next
    fix s assume "s \<in> set (map fst (symbolSubscriptions ws))"
    show "map_of (symbolSubscriptions ws) s \<noteq> Some []"
      using c by (auto simp: consistent_def)
  qed
qed

subsection \<open>The maps after one operation\<close>

lemma set_add_nonempty: "set_add x xs \<noteq> []"
  by (auto simp: set_add_def)

lemma set_set_add: "set (set_add x xs) = insert x (set xs)"
  by (auto simp: set_add_def)

lemma set_delete_Nil: "set_delete x xs = [] \<Longrightarrow> set xs - {x} = {}"
  by (metis set_delete_def set_removeAll set_empty)

lemma set_set_delete: "set (set_delete x xs) = set xs - {x}"
  by (auto simp: set_delete_def)

lemma unsubscribe_absent:
  "map_of (clients ws) c = None \<Longrightarrow> unsubscribeClientFromSymbol c s ws = ws"
  by (simp add: unsubscribeClientFromSymbol_def)

lemma unsubscribe_clients:
  "map_of (clients ws) c = Some client \<Longrightarrow>
   map_of (clients (unsubscribeClientFromSymbol c s ws)) =
     (map_of (clients ws))(c \<mapsto> client\<lparr>subscribedSymbols := set_delete s (subscribedSymbols client)\<rparr>)"
  by (simp add: unsubscribeClientFromSymbol_def Let_def AList.update_conv' split: option.splits)

lemma unsubscribe_subscriptions:
  "map_of (clients ws) c = Some client \<Longrightarrow>
   map_of (symbolSubscriptions (unsubscribeClientFromSymbol c s ws)) =
     (case map_of (symbolSubscriptions ws) s of
        None \<Rightarrow> map_of (symbolSubscriptions ws)
      | Some subscribers \<Rightarrow>
          if set_delete c subscribers = [] then (map_of (symbolSubscriptions ws))(s := None)
          else (map_of (symbolSubscriptions ws))(s \<mapsto> set_delete c subscribers))"
  by (simp add: unsubscribeClientFromSymbol_def Let_def AList.update_conv' AList.delete_conv'
      split: option.splits)

lemma unsubscribe_subscribers_of:
  "map_of (clients ws) c = Some client \<Longrightarrow>
   subscribers_of (unsubscribeClientFromSymbol c s ws) s' =
     (if s' = s then subscribers_of ws s - {c} else subscribers_of ws s')"
  by (auto simp: subscribers_of_def unsubscribe_subscriptions set_set_delete
      dest: set_delete_Nil split: option.splits)

lemma subscribe_absent:
  "map_of (clients ws) c = None \<Longrightarrow> subscribeClientToSymbol c s ws = ws"
  by (simp add: subscribeClientToSymbol_def)

lemma subscribe_clients:
  "map_of (clients ws) c = Some client \<Longrightarrow>
   map_of (clients (subscribeClientToSymbol c s ws)) =
     (map_of (clients ws))(c \<mapsto> client\<lparr>subscribedSymbols := set_add s (subscribedSymbols client)\<rparr>)"
  by (simp add: subscribeClientToSymbol_def Let_def AList.update_conv' split: option.splits)

lemma subscribe_subscriptions:
  "map_of (clients ws) c = Some client \<Longrightarrow>
   map_of (symbolSubscriptions (subscribeClientToSymbol c s ws)) =
     (map_of (symbolSubscriptions ws))
       (s \<mapsto> set_add c (case map_of (symbolSubscriptions ws) s of None \<Rightarrow> [] | Some l \<Rightarrow> l))"
  by (simp add: subscribeClientToSymbol_def Let_def AList.update_conv' split: option.splits)

lemma subscribe_subscribers_of:
  "map_of (clients ws) c = Some client \<Longrightarrow>
   subscribers_of (subscribeClientToSymbol c s ws) s' =
     (if s' = s then insert c (subscribers_of ws s) else subscribers_of ws s')"
  by (auto simp: subscribers_of_def subscribe_subscriptions set_add_def split: option.splits)

subsection \<open>Consistency is preserved\<close>

lemma subscribe_consistent:
  assumes "consistent ws"
  shows "consistent (subscribeClientToSymbol c s ws)"
proof (cases "map_of (clients ws) c")
  case None
  then show ?thesis using assms by (simp add: subscribe_absent)
next
  case (Some client)
  show ?thesis
    unfolding consistent_def
  proof (intro conjI allI impI)
    fix c' client' s'
    assume "map_of (clients (subscribeClientToSymbol c s ws)) c' = Some client'"
    then show "c' \<in> subscribers_of (subscribeClientToSymbol c s ws) s'
               \<longleftrightarrow> s' \<in> set (subscribedSymbols client')"
      using assms Some
      by (auto simp: subscribe_clients subscribe_subscribers_of set_set_add consistent_def
          split: if_splits)
  next
    fix s' subscribers
    assume "map_of (symbolSubscriptions (subscribeClientToSymbol c s ws)) s' = Some subscribers"
    then show "subscribers \<noteq> []"
      using assms Some
      by (auto simp: subscribe_subscriptions set_add_nonempty consistent_def split: if_splits)
  qed
qed

lemma unsubscribe_consistent:
  assumes "consistent ws"
  shows "consistent (unsubscribeClientFromSymbol c s ws)"
proof (cases "map_of (clients ws) c")
  case None
  then show ?thesis using assms by (simp add: unsubscribe_absent)
next
  case (Some client)
  show ?thesis
    unfolding consistent_def
  proof (intro conjI allI impI)
    fix c' client' s'
    assume "map_of (clients (unsubscribeClientFromSymbol c s ws)) c' = Some client'"
    then show "c' \<in> subscribers_of (unsubscribeClientFromSymbol c s ws) s'
               \<longleftrightarrow> s' \<in> set (subscribedSymbols client')"
      using assms Some
      by (auto simp: unsubscribe_clients unsubscribe_subscribers_of set_set_delete consistent_def
          split: if_splits)
  next
    fix s' subscribers
    assume "map_of (symbolSubscriptions (unsubscribeClientFromSymbol c s ws)) s' = Some subscribers"
    then show "subscribers \<noteq> []"
      using assms Some
      by (auto simp: unsubscribe_subscriptions consistent_def split: if_splits option.splits)
  qed
qed

lemma fold_unsubscribe_consistent:
  "consistent ws \<Longrightarrow> consistent (fold (unsubscribeClientFromSymbol c) ss ws)"
  by (induction ss arbitrary: ws) (simp_all add: unsubscribe_consistent)

lemma drop_client_consistent:
  assumes "consistent ws"
  shows "consistent (ws\<lparr>clients := AList.delete c (clients ws)\<rparr>)"
  using assms
  by (auto simp: consistent_def subscribers_of_def AList.delete_conv' split: if_splits)

lemma disconnect_consistent:
  assumes "consistent ws"
  shows "consistent (handleClientDisconnection c ws)"
  using assms
  by (simp add: handleClientDisconnection_def Let_def fold_unsubscribe_consistent
      drop_client_consistent split: option.splits)

lemma fold_subscribe_consistent:
  "consistent ws \<Longrightarrow> consistent (fold (subscribeClientToSymbol c) ss ws)"
  by (induction ss arbitrary: ws) (simp_all add: subscribe_consistent)

text \<open>
  C9. Subscribe, unsubscribe and disconnect each preserve the consistency of the
  registry: for every connected client \<open>c\<close> and symbol \<open>s\<close>, \<open>c\<close> is in the
  subscriber set of \<open>s\<close> exactly when \<open>s\<close> is in the client's own set of subscribed
  symbols, and no key of the symbol map has an empty subscriber set. This holds for the
  operation on one symbol and for the socket handlers, which run it over a list.
\<close>

theorem registry_consistency_preserved:
  assumes "consistent ws"
  shows "consistent (subscribeClientToSymbol c s ws)
         \<and> consistent (unsubscribeClientFromSymbol c s ws)
         \<and> consistent (handleClientDisconnection c ws)
         \<and> consistent (on_subscribe c symbols ws)
         \<and> consistent (on_unsubscribe c symbols ws)"
  using assms
  by (simp add: subscribe_consistent unsubscribe_consistent disconnect_consistent
      on_subscribe_def on_unsubscribe_def fold_subscribe_consistent fold_unsubscribe_consistent)

theorem registry_consistency_preserved_witness:
  "consistent (on_connection ''c2'' (on_connection ''c1'' initialWebSocketService))
   \<and> consistent (subscribeClientToSymbol ''c1'' ''IBM''
         (on_connection ''c2'' (on_connection ''c1'' initialWebSocketService)))
   \<and> consistent (unsubscribeClientFromSymbol ''c1'' ''AAPL''
         (on_connection ''c2'' (on_connection ''c1'' initialWebSocketService)))
   \<and> consistent (handleClientDisconnection ''c1''
         (on_connection ''c2'' (on_connection ''c1'' initialWebSocketService)))"
proof -
  have "consistent_check (on_connection ''c2'' (on_connection ''c1'' initialWebSocketService))"
    by code_simp
  then have c: "consistent (on_connection ''c2'' (on_connection ''c1'' initialWebSocketService))"
    by (simp add: consistent_check_iff)
  show ?thesis
    using c registry_consistency_preserved[OF c, of "''c1''" "''IBM''"]
      registry_consistency_preserved[OF c, of "''c1''" "''AAPL''"]
    by simp
qed

subsection \<open>Reachable states are consistent\<close>

lemma subscribe_no_stale:
  assumes "no_stale_subscribers ws"
  shows "no_stale_subscribers (subscribeClientToSymbol c s ws)"
proof (cases "map_of (clients ws) c")
  case None
  then show ?thesis using assms by (simp add: subscribe_absent)
next
  case (Some client)
  then show ?thesis
    using assms
    by (auto simp: no_stale_subscribers_def subscribe_clients subscribe_subscribers_of
        split: if_splits)
qed

lemma unsubscribe_no_stale:
  assumes "no_stale_subscribers ws"
  shows "no_stale_subscribers (unsubscribeClientFromSymbol c s ws)"
proof (cases "map_of (clients ws) c")
  case None
  then show ?thesis using assms by (simp add: unsubscribe_absent)
next
  case (Some client)
  then show ?thesis
    using assms
    by (auto simp: no_stale_subscribers_def unsubscribe_clients unsubscribe_subscribers_of
        split: if_splits)
qed

lemma fold_subscribe_no_stale:
  "no_stale_subscribers ws \<Longrightarrow> no_stale_subscribers (fold (subscribeClientToSymbol c) ss ws)"
  by (induction ss arbitrary: ws) (simp_all add: subscribe_no_stale)

lemma fold_unsubscribe_no_stale:
  "no_stale_subscribers ws \<Longrightarrow> no_stale_subscribers (fold (unsubscribeClientFromSymbol c) ss ws)"
  by (induction ss arbitrary: ws) (simp_all add: unsubscribe_no_stale)

lemma fold_unsubscribe_subscribers_of:
  "map_of (clients ws) c = Some client \<Longrightarrow>
   subscribers_of (fold (unsubscribeClientFromSymbol c) ss ws) s' =
     (if s' \<in> set ss then subscribers_of ws s' - {c} else subscribers_of ws s')"
proof (induction ss arbitrary: ws client)
  case Nil
  then show ?case by simp
next
  case (Cons a ss)
  let ?ws1 = "unsubscribeClientFromSymbol c a ws"
  have "map_of (clients ?ws1) c
          = Some (client\<lparr>subscribedSymbols := set_delete a (subscribedSymbols client)\<rparr>)"
    using Cons.prems by (simp add: unsubscribe_clients)
  then have "subscribers_of (fold (unsubscribeClientFromSymbol c) ss ?ws1) s' =
     (if s' \<in> set ss then subscribers_of ?ws1 s' - {c} else subscribers_of ?ws1 s')"
    by (rule Cons.IH)
  then show ?case
    using Cons.prems by (auto simp: unsubscribe_subscribers_of)
qed

lemma disconnect_no_stale:
  assumes "consistent ws" and "no_stale_subscribers ws"
  shows "no_stale_subscribers (handleClientDisconnection c ws)"
proof (cases "map_of (clients ws) c")
  case None
  then show ?thesis using assms by (simp add: handleClientDisconnection_def)
next
  case (Some client)
  let ?ws1 = "fold (unsubscribeClientFromSymbol c) (subscribedSymbols client) ws"
  have gone: "\<And>s. c \<notin> subscribers_of ?ws1 s"
    using assms(1) Some by (auto simp: fold_unsubscribe_subscribers_of consistent_def)
  have stale1: "no_stale_subscribers ?ws1"
    using assms(2) by (rule fold_unsubscribe_no_stale)
  have "handleClientDisconnection c ws = ?ws1\<lparr>clients := AList.delete c (clients ?ws1)\<rparr>"
    using Some by (simp add: handleClientDisconnection_def Let_def)
  moreover have "no_stale_subscribers (?ws1\<lparr>clients := AList.delete c (clients ?ws1)\<rparr>)"
    unfolding no_stale_subscribers_def
  proof (intro allI impI)
    fix s c'
    assume "c' \<in> subscribers_of (?ws1\<lparr>clients := AList.delete c (clients ?ws1)\<rparr>) s"
    then have m: "c' \<in> subscribers_of ?ws1 s" by (simp add: subscribers_of_def)
    with gone have "c' \<noteq> c" by blast
    moreover from m stale1 have "map_of (clients ?ws1) c' \<noteq> None"
      by (simp add: no_stale_subscribers_def)
    ultimately show "map_of (clients (?ws1\<lparr>clients := AList.delete c (clients ?ws1)\<rparr>)) c' \<noteq> None"
      by (simp add: AList.delete_conv')
  qed
  ultimately show ?thesis by simp
qed

lemma new_client_consistent:
  assumes "consistent ws" and "no_stale_subscribers ws" and "map_of (clients ws) c = None"
  shows "consistent (ws\<lparr>clients := AList.update c
           \<lparr>client_id = c, userId = None, subscribedSymbols = [], rooms = []\<rparr> (clients ws)\<rparr>)
       \<and> no_stale_subscribers (ws\<lparr>clients := AList.update c
           \<lparr>client_id = c, userId = None, subscribedSymbols = [], rooms = []\<rparr> (clients ws)\<rparr>)"
proof -
  have fresh: "\<And>s. c \<notin> subscribers_of ws s"
    using assms(2,3) unfolding no_stale_subscribers_def by blast
  show ?thesis
    using assms(1,2) fresh
    by (auto simp: consistent_def no_stale_subscribers_def subscribers_of_def
        AList.update_conv' split: if_splits)
qed

lemma reachable_consistent:
  "reachable ws \<Longrightarrow> consistent ws \<and> no_stale_subscribers ws"
proof (induction rule: reachable.induct)
  case start
  then show ?case
    by (simp add: consistent_def no_stale_subscribers_def subscribers_of_def
        initialWebSocketService_def)
next
  case (connection ws c)
  then show ?case
    using new_client_consistent[of ws c]
    by (simp add: on_connection_def on_subscribe_def fold_subscribe_consistent
        fold_subscribe_no_stale)
next
  case (subscribe ws c symbols)
  then show ?case
    by (simp add: on_subscribe_def fold_subscribe_consistent fold_subscribe_no_stale)
next
  case (unsubscribe ws c symbols)
  then show ?case
    by (simp add: on_unsubscribe_def fold_unsubscribe_consistent fold_unsubscribe_no_stale)
next
  case (disconnect ws c)
  then show ?case
    by (simp add: disconnect_consistent disconnect_no_stale)
qed

subsection \<open>Unsubscribing twice\<close>

lemma unsubscribe_idem:
  "unsubscribeClientFromSymbol c s (unsubscribeClientFromSymbol c s ws)
     = unsubscribeClientFromSymbol c s ws"
proof (cases "map_of (clients ws) c")
  case None
  then show ?thesis by (simp add: unsubscribe_absent)
next
  case (Some client)
  show ?thesis
  proof (cases "map_of (symbolSubscriptions ws) s")
    case None
    with Some show ?thesis
      by (simp add: unsubscribeClientFromSymbol_def Let_def AList.update_conv' set_delete_def)
  next
    case (Some subscribers)
    with \<open>map_of (clients ws) c = Some client\<close> show ?thesis
      by (simp add: unsubscribeClientFromSymbol_def Let_def AList.update_conv'
          AList.delete_conv' set_delete_def unsubscribeFromSymbol_def AList.delete_idem)
  qed
qed

text \<open>
  C8. Handling \<open>unsubscribe(c, [s])\<close> a second time leaves the whole state (both
  maps of the registry and the market data service behind it) as the first call left
  it. The handler is a total function, so the second call completes, and subscriber
  sets are lists whose size cannot go below zero.
\<close>

theorem unsubscribe_twice_is_once:
  "on_unsubscribe c [s] (on_unsubscribe c [s] ws) = on_unsubscribe c [s] ws"
  by (simp add: on_unsubscribe_def unsubscribe_idem)

section \<open>The scheduler's poll targets\<close>

lemma getMarketData_keeps_absent:
  "map_of mc k = None \<Longrightarrow> map_of (snd (getMarketData s now mc)) k = None"
  by (simp add: getMarketData_def AList.delete_conv' split: option.splits)

lemma symbolsNeedingUpdate_step:
  "fst (symbolsNeedingUpdate (s # ss) th now mc) =
     (let rest = fst (symbolsNeedingUpdate ss th now (snd (getMarketData s now mc))) in
      case fst (getMarketData s now mc) of
        None \<Rightarrow> s # rest
      | Some v \<Rightarrow> if now - timestamp_of v > th then s # rest else rest)"
  by (simp add: case_prod_beta Let_def split: option.splits)

lemma symbolsNeedingUpdate_subset:
  "set (fst (symbolsNeedingUpdate tier th now mc)) \<subseteq> set tier"
proof (induction tier arbitrary: mc)
  case Nil
  then show ?case by simp
next
  case (Cons s ss)
  have "set (fst (symbolsNeedingUpdate ss th now (snd (getMarketData s now mc)))) \<subseteq> set ss"
    by (rule Cons.IH)
  then show ?case
    unfolding symbolsNeedingUpdate_step
    by (auto simp: Let_def split: option.splits if_splits)
qed

lemma symbolsNeedingUpdate_absent:
  "s \<in> set tier \<Longrightarrow> map_of mc (market_key s) = None \<Longrightarrow>
   s \<in> set (fst (symbolsNeedingUpdate tier th now mc))"
proof (induction tier arbitrary: mc)
  case Nil
  then show ?case by simp
next
  case (Cons a ss)
  show ?case
  proof (cases "s = a")
    case True
    with Cons.prems(2) have "fst (getMarketData a now mc) = None"
      by (simp add: getMarketData_def)
    then show ?thesis
      unfolding symbolsNeedingUpdate_step using True by (simp add: Let_def)
  next
    case False
    with Cons.prems(1) have "s \<in> set ss" by simp
    moreover have "map_of (snd (getMarketData a now mc)) (market_key s) = None"
      using Cons.prems(2) by (rule getMarketData_keeps_absent)
    ultimately have "s \<in> set (fst (symbolsNeedingUpdate ss th now (snd (getMarketData a now mc))))"
      by (rule Cons.IH)
    then show ?thesis
      unfolding symbolsNeedingUpdate_step by (simp add: Let_def split: option.splits)
  qed
qed

lemma subscribe_cache_frame:
  "memoryCache (marketDataService (subscribeClientToSymbol c s ws))
     = memoryCache (marketDataService ws)"
  by (simp add: subscribeClientToSymbol_def Let_def subscribeToSymbol_def split: option.splits)

lemma unsubscribe_cache_frame:
  "memoryCache (marketDataService (unsubscribeClientFromSymbol c s ws))
     = memoryCache (marketDataService ws)"
  by (simp add: unsubscribeClientFromSymbol_def Let_def unsubscribeFromSymbol_def
      split: option.splits)

lemma fold_unsubscribe_cache_frame:
  "memoryCache (marketDataService (fold (unsubscribeClientFromSymbol c) ss ws))
     = memoryCache (marketDataService ws)"
  by (induction ss arbitrary: ws) (simp_all add: unsubscribe_cache_frame)

lemma disconnect_cache_frame:
  "memoryCache (marketDataService (handleClientDisconnection c ws))
     = memoryCache (marketDataService ws)"
  by (simp add: handleClientDisconnection_def Let_def fold_unsubscribe_cache_frame
      split: option.splits)

lemma pollTargets_set: "set pollTargets = set allSymbols"
proof -
  have "set highPrioritySymbols \<subseteq> set allSymbols"
    by (simp add: highPrioritySymbols_def allSymbols_def)
  moreover have "set mediumPrioritySymbols \<subseteq> set allSymbols"
    by (simp add: mediumPrioritySymbols_def allSymbols_def)
  ultimately show ?thesis
    by (auto simp: pollTargets_def lowPrioritySymbols_def)
qed

lemma pollTargets_distinct: "distinct pollTargets"
  by code_simp

text \<open>
  C5 (as the code has it). The symbols the scheduler polls are the static table of
  \<open>startPeriodicDataFetch\<close>: a symbol is a poll target exactly when it is in
  \<open>allSymbols\<close>, each such symbol in one tier. A tier cycle selects its fetches from
  its own list and from the cache alone, and selects every listed symbol that has no
  cached quote; subscribe, unsubscribe and disconnect leave the cache untouched. So the
  subscriber sets neither activate nor deactivate polling, and a listed symbol is never
  deactivated.
\<close>

theorem poll_targets_are_static:
  "(s \<in> set pollTargets \<longleftrightarrow> s \<in> set allSymbols)
   \<and> distinct pollTargets
   \<and> set (fst (symbolsNeedingUpdate tier threshold now mc)) \<subseteq> set tier
   \<and> (s' \<in> set tier \<and> map_of mc (market_key s') = None
        \<longrightarrow> s' \<in> set (fst (symbolsNeedingUpdate tier threshold now mc)))
   \<and> memoryCache (marketDataService (subscribeClientToSymbol c x ws))
       = memoryCache (marketDataService ws)
   \<and> memoryCache (marketDataService (unsubscribeClientFromSymbol c x ws))
       = memoryCache (marketDataService ws)
   \<and> memoryCache (marketDataService (handleClientDisconnection c ws))
       = memoryCache (marketDataService ws)"
  by (simp add: pollTargets_set pollTargets_distinct symbolsNeedingUpdate_subset
      symbolsNeedingUpdate_absent subscribe_cache_frame unsubscribe_cache_frame
      disconnect_cache_frame)

theorem poll_targets_are_static_witness:
  "''IBM'' \<in> set lowPrioritySymbols
   \<and> ''IBM'' \<notin> set popularSymbols
   \<and> map_of (symbolSubscriptions (on_connection ''c1'' initialWebSocketService)) ''IBM'' = None
   \<and> map_of (memoryCache (marketDataService (on_connection ''c1'' initialWebSocketService)))
        (market_key ''IBM'') = None
   \<and> ''IBM'' \<in> set (fst (symbolsNeedingUpdate lowPrioritySymbols 45000 100000
        (memoryCache (marketDataService (on_connection ''c1'' initialWebSocketService)))))"
  using poll_targets_are_static
    [where s' = "''IBM''" and tier = lowPrioritySymbols and threshold = 45000 and now = 100000
       and mc = "memoryCache (marketDataService (on_connection ''c1'' initialWebSocketService))"]
  by (simp add: lowPrioritySymbols_def allSymbols_def highPrioritySymbols_def
      mediumPrioritySymbols_def popularSymbols_def on_connection_def on_subscribe_def
      initialWebSocketService_def initialMarketDataService_def subscribeClientToSymbol_def
      subscribeToSymbol_def set_add_def Let_def)

text \<open>
  C5 as stated fails: after a client subscribes to SOL/USD the symbol has a subscriber
  and is still not polled by any tier.
\<close>

theorem subscribed_symbol_not_polled:
  "map_of (symbolSubscriptions
             (on_subscribe ''c1'' [''SOL/USD''] (on_connection ''c1'' initialWebSocketService)))
          ''SOL/USD'' = Some [''c1'']
   \<and> ''SOL/USD'' \<notin> set pollTargets"
  by (simp add: pollTargets_def lowPrioritySymbols_def allSymbols_def highPrioritySymbols_def
      mediumPrioritySymbols_def popularSymbols_def on_connection_def on_subscribe_def
      initialWebSocketService_def initialMarketDataService_def subscribeClientToSymbol_def
      subscribeToSymbol_def set_add_def Let_def)

section \<open>The broadcast tick\<close>

lemma market_key_inj: "market_key s = market_key s' \<longleftrightarrow> s = s'"
  by (simp add: market_key_def)

lemma getMarketData_map:
  "map_of (snd (getMarketData s now mc)) k =
     (if k = market_key s then live_entry now mc k else map_of mc k)"
proof (cases "map_of mc (market_key s)")
  case None
  then show ?thesis by (simp add: getMarketData_def live_entry_def)
next
  case (Some e)
  then show ?thesis
    by (simp add: getMarketData_def live_entry_def AList.delete_conv')
qed

lemma getMarketData_result:
  "fst (getMarketData s now mc) = map_option value (live_entry now mc (market_key s))"
  by (simp add: getMarketData_def live_entry_def split: option.splits)

lemma live_entry_after_get:
  "live_entry now (snd (getMarketData s now mc)) k = live_entry now mc k"
proof (cases "k = market_key s")
  case True
  then show ?thesis
    by (simp add: live_entry_def getMarketData_map split: option.splits)
next
  case False
  then show ?thesis
    by (simp add: live_entry_def getMarketData_map)
qed

lemma getMarketData_after_get:
  "fst (getMarketData s' now (snd (getMarketData s now mc))) = fst (getMarketData s' now mc)"
  by (simp add: getMarketData_result live_entry_after_get)

lemma broadcast_read_map:
  "map_of (snd (broadcast_read symbols now mc)) k =
     (if k \<in> market_key ` set symbols then live_entry now mc k else map_of mc k)"
proof (induction symbols arbitrary: mc)
  case Nil
  then show ?case by simp
next
  case (Cons s ss)
  have step: "snd (broadcast_read (s # ss) now mc)
          = snd (broadcast_read ss now (snd (getMarketData s now mc)))"
    by (simp add: case_prod_beta split: option.splits)
  show ?case
  proof (cases "k \<in> market_key ` set ss")
    case True
    then show ?thesis
      unfolding step by (simp add: Cons.IH live_entry_after_get)
  next
    case False
    then show ?thesis
      unfolding step by (simp add: Cons.IH getMarketData_map)
  qed
qed

lemma broadcast_read_scheduled:
  "fst (broadcast_read symbols now mc) = List.map_filter (\<lambda>s. fst (getMarketData s now mc)) symbols"
proof (induction symbols arbitrary: mc)
  case Nil
  then show ?case by simp
next
  case (Cons s ss)
  have step: "fst (broadcast_read (s # ss) now mc) =
     (case fst (getMarketData s now mc) of
        None \<Rightarrow> fst (broadcast_read ss now (snd (getMarketData s now mc)))
      | Some v \<Rightarrow> v # fst (broadcast_read ss now (snd (getMarketData s now mc))))"
    by (simp add: case_prod_beta split: option.splits)
  show ?case
    unfolding step by (simp add: Cons.IH getMarketData_after_get split: option.splits)
qed

lemma in_map_filter: "v \<in> set (List.map_filter f xs) \<longleftrightarrow> (\<exists>x\<in>set xs. f x = Some v)"
  by (induction xs) (auto split: option.splits)

lemma live_entry_Some:
  "live_entry now mc k = Some e \<longleftrightarrow> map_of mc k = Some e \<and> expiry e > now"
  by (auto simp: live_entry_def split: option.splits)

lemma scheduled_iff:
  "v \<in> set (fst (broadcast_read symbols now mc)) \<longleftrightarrow>
     (\<exists>s\<in>set symbols. \<exists>e. map_of mc (market_key s) = Some e \<and> expiry e > now \<and> v = value e)"
proof -
  have "\<And>s. fst (getMarketData s now mc) = Some v \<longleftrightarrow>
          (\<exists>e. map_of mc (market_key s) = Some e \<and> expiry e > now \<and> v = value e)"
    by (auto simp: getMarketData_def split: option.splits)
  then show ?thesis
    by (simp add: broadcast_read_scheduled in_map_filter)
qed

lemma processMarketData_frame:
  "requestCount (processMarketData v t st) = requestCount st"
  "lastRequestTime (processMarketData v t st) = lastRequestTime st"
  "httpRequests (processMarketData v t st) = httpRequests st"
  "requestQueue (processMarketData v t st) = requestQueue st"
  "mdSubscribedSymbols (processMarketData v t st) = mdSubscribedSymbols st"
  by (simp_all add: processMarketData_def)

lemma fold_processMarketData_frame:
  "requestCount (fold (\<lambda>v. processMarketData v t) vs st) = requestCount st
   \<and> lastRequestTime (fold (\<lambda>v. processMarketData v t) vs st) = lastRequestTime st
   \<and> httpRequests (fold (\<lambda>v. processMarketData v t) vs st) = httpRequests st
   \<and> requestQueue (fold (\<lambda>v. processMarketData v t) vs st) = requestQueue st
   \<and> mdSubscribedSymbols (fold (\<lambda>v. processMarketData v t) vs st) = mdSubscribedSymbols st"
  by (induction vs arbitrary: st) (simp_all add: processMarketData_frame)

lemma processMarketData_map:
  "map_of (memoryCache (processMarketData v t st)) k =
     (if k = market_key (symbol_of v) then Some \<lparr>value = v, expiry = t + 60000\<rparr>
      else map_of (memoryCache st) k)"
  by (simp add: processMarketData_def setMarketData_def AList.update_conv')

lemma fold_processMarketData_other:
  "\<forall>v\<in>set vs. market_key (symbol_of v) \<noteq> k \<Longrightarrow>
   map_of (memoryCache (fold (\<lambda>v. processMarketData v t) vs st)) k = map_of (memoryCache st) k"
  by (induction vs arbitrary: st) (auto simp: processMarketData_map)

lemma fold_processMarketData_hit:
  assumes "v0 \<in> set vs" and "market_key (symbol_of v0) = k"
    and "\<forall>v\<in>set vs. market_key (symbol_of v) = k \<longrightarrow> v = v0"
  shows "map_of (memoryCache (fold (\<lambda>v. processMarketData v t) vs st)) k
           = Some \<lparr>value = v0, expiry = t + 60000\<rparr>"
  using assms
proof (induction vs arbitrary: st)
  case Nil
  then show ?case by simp
next
  case (Cons v vs)
  have rest: "\<forall>v'\<in>set vs. market_key (symbol_of v') = k \<longrightarrow> v' = v0"
    using Cons.prems(3) by (meson list.set_intros(2))
  show ?case
  proof (cases "v0 \<in> set vs")
    case True
    have "map_of (memoryCache (fold (\<lambda>v. processMarketData v t) vs (processMarketData v t st))) k
           = Some \<lparr>value = v0, expiry = t + 60000\<rparr>"
      using True Cons.prems(2) rest by (rule Cons.IH)
    then show ?thesis by (simp only: fold_simps)
  next
    case False
    with Cons.prems(1) have v: "v0 = v" by (metis set_ConsD)
    have none: "\<forall>v'\<in>set vs. market_key (symbol_of v') \<noteq> k"
      using False rest by blast
    have "map_of (memoryCache (fold (\<lambda>v. processMarketData v t) vs (processMarketData v t st))) k
            = map_of (memoryCache (processMarketData v t st)) k"
      using none by (rule fold_processMarketData_other)
    also have "\<dots> = Some \<lparr>value = v0, expiry = t + 60000\<rparr>"
      unfolding v using Cons.prems(2)[unfolded v] by (simp add: processMarketData_map)
    finally show ?thesis by (simp only: fold_simps)
  qed
qed

lemma broadcast_over_frame:
  "requestCount (broadcast_over symbols now now' st) = requestCount st
   \<and> lastRequestTime (broadcast_over symbols now now' st) = lastRequestTime st
   \<and> httpRequests (broadcast_over symbols now now' st) = httpRequests st
   \<and> requestQueue (broadcast_over symbols now now' st) = requestQueue st"
  by (simp add: broadcast_over_def case_prod_beta fold_processMarketData_frame)

lemma broadcast_over_rewrites:
  assumes wf0: "quotes_keyed_by_symbol symbols (memoryCache st)"
    and s: "s \<in> set symbols"
    and e: "map_of (memoryCache st) (market_key s) = Some e" "expiry e > now"
  shows "map_of (memoryCache (broadcast_over symbols now now' st)) (market_key s)
           = Some \<lparr>value = value e, expiry = now' + 60000\<rparr>"
proof -
  let ?vs = "fst (broadcast_read symbols now (memoryCache st))"
  have wf: "\<And>s' e'. s' \<in> set symbols \<Longrightarrow> map_of (memoryCache st) (market_key s') = Some e'
                 \<Longrightarrow> symbol_of (value e') = s'"
    using wf0 by (force simp: quotes_keyed_by_symbol_def)
  have in_vs: "value e \<in> set ?vs"
    using s e by (auto simp: scheduled_iff)
  have key: "market_key (symbol_of (value e)) = market_key s"
    using wf s e by simp
  have uniq: "\<forall>v\<in>set ?vs. market_key (symbol_of v) = market_key s \<longrightarrow> v = value e"
  proof (intro ballI impI)
    fix v assume "v \<in> set ?vs" and k: "market_key (symbol_of v) = market_key s"
    then obtain s' e' where s': "s' \<in> set symbols"
      "map_of (memoryCache st) (market_key s') = Some e'" "v = value e'"
      by (auto simp: scheduled_iff)
    with wf have "symbol_of v = s'" by simp
    with k have "s' = s" by (simp add: market_key_inj)
    with s' e show "v = value e" by simp
  qed
  show ?thesis
    using fold_processMarketData_hit[OF in_vs key uniq]
    by (simp add: broadcast_over_def case_prod_beta)
qed

text \<open>
  C6 (as the code has it). A broadcast tick issues no upstream request and leaves the
  request counter, the window start and the request queue as they were. It does write
  to the cache: every symbol it broadcasts, that is every listed symbol with an
  unexpired cached quote, is passed to \<open>processMarketData\<close>, which stores the same
  quote again under the symbol's key with the expiry renewed to 60 s after the write.
\<close>

theorem broadcast_tick_effects:
  "requestCount (broadcast_tick now now' st) = requestCount st
   \<and> lastRequestTime (broadcast_tick now now' st) = lastRequestTime st
   \<and> httpRequests (broadcast_tick now now' st) = httpRequests st
   \<and> requestQueue (broadcast_tick now now' st) = requestQueue st
   \<and> (quotes_keyed_by_symbol allSymbols (memoryCache st)
       \<and> s \<in> set allSymbols
       \<and> map_of (memoryCache st) (market_key s) = Some e \<and> expiry e > now
      \<longrightarrow> map_of (memoryCache (broadcast_tick now now' st)) (market_key s)
            = Some \<lparr>value = value e, expiry = now' + 60000\<rparr>)"
  using broadcast_over_frame[of allSymbols now now' st]
    broadcast_over_rewrites[of allSymbols st s e now now']
  by (simp add: broadcast_tick_def)

theorem broadcast_tick_effects_witness:
  "quotes_keyed_by_symbol allSymbols
     (memoryCache (processMarketData (MarketDataValue (trade_quote ''AAPL'' 150 1 1000)) 1000
                     initialMarketDataService))
   \<and> ''AAPL'' \<in> set allSymbols
   \<and> map_of (memoryCache (processMarketData (MarketDataValue (trade_quote ''AAPL'' 150 1 1000))
                              1000 initialMarketDataService)) (market_key ''AAPL'')
       = Some \<lparr>value = MarketDataValue (trade_quote ''AAPL'' 150 1 1000), expiry = 61000\<rparr>
   \<and> expiry \<lparr>value = MarketDataValue (trade_quote ''AAPL'' 150 1 1000), expiry = 61000\<rparr>
       > 2000
   \<and> map_of (memoryCache (broadcast_tick 2000 2001
         (processMarketData (MarketDataValue (trade_quote ''AAPL'' 150 1 1000)) 1000
            initialMarketDataService))) (market_key ''AAPL'')
       = Some \<lparr>value = MarketDataValue (trade_quote ''AAPL'' 150 1 1000), expiry = 62001\<rparr>
   \<and> httpRequests (broadcast_tick 2000 2001
         (processMarketData (MarketDataValue (trade_quote ''AAPL'' 150 1 1000)) 1000
            initialMarketDataService)) = 0"
  using broadcast_tick_effects
    [where st = "processMarketData (MarketDataValue (trade_quote ''AAPL'' 150 1 1000)) 1000
                   initialMarketDataService"
       and s = "''AAPL''" and now = 2000 and now' = 2001
       and e = "\<lparr>value = MarketDataValue (trade_quote ''AAPL'' 150 1 1000), expiry = 61000\<rparr>"]
  by (simp add: quotes_keyed_by_symbol_def allSymbols_def processMarketData_def
      initialMarketDataService_def setMarketData_def market_key_def trade_quote_def)

text \<open>
  C6 as stated fails: a quote cached at time 1000 has expiry 61000; after the tick at
  time 2000, whose deferred writes run at 2001, the entry of that symbol has expiry
  62001. The tick has modified the cache entry of a symbol it broadcast.
\<close>

theorem broadcast_tick_renews_expiry:
  "map_of (memoryCache (processMarketData (MarketDataValue (trade_quote ''AAPL'' 150 1 1000))
                          1000 initialMarketDataService)) ''market:AAPL''
     = Some \<lparr>value = MarketDataValue (trade_quote ''AAPL'' 150 1 1000), expiry = 61000\<rparr>
   \<and> map_of (memoryCache (broadcast_tick 2000 2001
             (processMarketData (MarketDataValue (trade_quote ''AAPL'' 150 1 1000)) 1000
                initialMarketDataService))) ''market:AAPL''
     = Some \<lparr>value = MarketDataValue (trade_quote ''AAPL'' 150 1 1000), expiry = 62001\<rparr>"
  by (simp add: broadcast_tick_def broadcast_over_def allSymbols_def processMarketData_def
      initialMarketDataService_def setMarketData_def market_key_def getMarketData_def
      trade_quote_def)

end
